theory Spec2Isabelle
  imports Complex_Main "HOL-Library.Log_Nat"
begin

section \<open>Tensors, shapes and errors\<close>

text \<open>
  The decoder of \<^verbatim>\<open>km3d_decoder.py\<close> works on dense PyTorch tensors. A tensor of rank
  \<open>n\<close> is modelled as an \<open>n\<close>-fold nested list in row-major order (\<open>t ! b ! c ! i ! j\<close>
  is \<^verbatim>\<open>t[b, c, i, j]\<close>); a nested list is a tensor when it is rectangular, which the
  predicates \<open>rect2\<close>, \<open>rect3\<close>, \<open>rect4\<close> state. Floating-point entries are modelled
  as real numbers, index tensors (\<^verbatim>\<open>int64\<close>) as natural numbers; where the source
  converts an index to single precision or divides it, the rounding is modelled. An
  exception raised by Python or by a PyTorch primitive is a value \<open>Inl e\<close> of the
  result type \<open>error + 'a\<close>.
\<close>

type_synonym grid = "real list list"
type_synonym tensor3 = "real list list list"
type_synonym tensor4 = "real list list list list"

datatype error =
    RuntimeError        \<comment> \<open>raised by a PyTorch primitive: \<^verbatim>\<open>topk\<close> with \<open>k\<close> out of range,
                            \<^verbatim>\<open>gather\<close> with an index out of range, \<^verbatim>\<open>cat\<close>/\<^verbatim>\<open>expand\<close>/\<^verbatim>\<open>view\<close>
                            on incompatible sizes, \<^verbatim>\<open>inverse\<close> of a singular matrix\<close>
  | IndexError          \<comment> \<open>a reduction along an axis of size zero; an index into an empty axis\<close>
  | KeyError            \<comment> \<open>a key missing from the \<^verbatim>\<open>meta\<close> dictionary\<close>
  | TypeError           \<comment> \<open>a size argument that is not an integer; subscripting \<^verbatim>\<open>None\<close>\<close>
  | ValueError          \<comment> \<open>conversion of a tensor with several elements to a scalar\<close>
  | AttributeError      \<comment> \<open>a tensor method called on \<^verbatim>\<open>None\<close>\<close>
  | UnboundLocalError   \<comment> \<open>a local variable read before any assignment\<close>

definition bindE :: "error + 'a \<Rightarrow> ('a \<Rightarrow> error + 'b) \<Rightarrow> error + 'b" where
  "bindE m f = (case m of Inl e \<Rightarrow> Inl e | Inr x \<Rightarrow> f x)"

fun mapE :: "('a \<Rightarrow> error + 'b) \<Rightarrow> 'a list \<Rightarrow> error + 'b list" where
  "mapE f [] = Inr []"
| "mapE f (x # xs) = bindE (f x) (\<lambda>y. bindE (mapE f xs) (\<lambda>ys. Inr (y # ys)))"

text \<open>
  Broadcasting of one axis by \<^verbatim>\<open>expand\<close> or by an elementwise operation: an axis of
  the wanted size stays, an axis of size one is replicated, any other size raises.
\<close>

definition expand_axis :: "nat \<Rightarrow> 'a list \<Rightarrow> error + 'a list" where
  "expand_axis n xs =
     (if length xs = n then Inr xs
      else if length xs = 1 then Inr (replicate n (hd xs))
      else Inl RuntimeError)"

text \<open>\<^verbatim>\<open>t.view(batch, K, n)\<close> of a contiguous \<open>(batch, K, m)\<close> tensor: raises unless \<open>m = n\<close>.\<close>

definition view_last :: "nat \<Rightarrow> 'a list list list \<Rightarrow> error + 'a list list list" where
  "view_last n t = (if list_all (list_all (\<lambda>row. length row = n)) t then Inr t else Inl RuntimeError)"

definition rect2 :: "nat \<Rightarrow> nat \<Rightarrow> 'a list list \<Rightarrow> bool" where
  "rect2 h w g = (length g = h \<and> list_all (\<lambda>row. length row = w) g)"

definition rect3 :: "nat \<Rightarrow> nat \<Rightarrow> nat \<Rightarrow> 'a list list list \<Rightarrow> bool" where
  "rect3 c h w t = (length t = c \<and> list_all (rect2 h w) t)"

definition rect4 :: "nat \<Rightarrow> nat \<Rightarrow> nat \<Rightarrow> nat \<Rightarrow> 'a list list list list \<Rightarrow> bool" where
  "rect4 b c h w t = (length t = b \<and> list_all (rect3 c h w) t)"

definition nonneg4 :: "tensor4 \<Rightarrow> bool" where
  "nonneg4 t = list_all (list_all (list_all (list_all (\<lambda>v. 0 \<le> v)))) t"

text \<open>
  \<^verbatim>\<open>batch, cat, height, width = t.size()\<close>, read off the first entry of each axis. A
  nested list does not record the sizes of the axes below an empty one, so the sizes are
  those of the tensor when it has at least one image and one channel.
\<close>

definition size4 :: "'a list list list list \<Rightarrow> nat \<times> nat \<times> nat \<times> nat" where
  "size4 t = (length t, length (hd t), length (hd (hd t)), length (hd (hd (hd t))))"

section \<open>Peak suppression: \<^verbatim>\<open>_nms\<close>\<close>

text \<open>
  \<^verbatim>\<open>F.max_pool2d(heat, (3, 3), stride=1, padding=1)\<close> pads with \<open>-\<infinity>\<close>, so the maximum at
  \<open>(i, j)\<close> ranges over the cells of the \<open>3\<times>3\<close> window that lie inside the map: rows
  \<open>nbrs h i\<close>, columns \<open>nbrs w j\<close>. The window always holds \<open>(i, j)\<close> itself, hence
  \<open>max_list\<close> is only ever applied to a non-empty list. Every call of \<^verbatim>\<open>_nms\<close> in the file
  uses the default \<^verbatim>\<open>kernel=3\<close>, so \<^verbatim>\<open>pad = (3 - 1) // 2 = 1\<close>.
\<close>

fun max_list :: "real list \<Rightarrow> real" where
  "max_list (x # xs) = fold max xs x"

definition nbrs :: "nat \<Rightarrow> nat \<Rightarrow> nat list" where
  "nbrs n i = filter (\<lambda>i'. i' < n) [i - 1 ..< i + 2]"

definition pool_at :: "grid \<Rightarrow> nat \<Rightarrow> nat \<Rightarrow> real" where
  "pool_at g i j =
     max_list (concat (map (\<lambda>i'. map (\<lambda>j'. g ! i' ! j') (nbrs (length (g ! i)) j))
                           (nbrs (length g) i)))"

definition max_pool2d :: "grid \<Rightarrow> grid" where
  "max_pool2d g = map (\<lambda>i. map (\<lambda>j. pool_at g i j) [0 ..< length (g ! i)]) [0 ..< length g]"

text \<open>\<^verbatim>\<open>keep = (hmax == heat).float(); return heat * keep\<close>, on one channel of one image.\<close>

definition nms2 :: "grid \<Rightarrow> grid" where
  "nms2 g = map2 (\<lambda>row mrow. map2 (\<lambda>v m. v * (if m = v then 1 else 0)) row mrow)
                 g (max_pool2d g)"

definition nms :: "tensor4 \<Rightarrow> tensor4" where
  "nms heat = map (map nms2) heat"

text \<open>
  The specification's wording of the window: the \<open>3\<times>3\<close> neighbourhood of the map padded by
  replicating its border, that is, with every coordinate clamped into the map.
\<close>

definition nbhd :: "nat \<Rightarrow> nat \<Rightarrow> nat \<Rightarrow> nat \<Rightarrow> (nat \<times> nat) set" where
  "nbhd h w i j = set (List.product (nbrs h i) (nbrs w j))"

definition clamp_index :: "nat \<Rightarrow> int \<Rightarrow> nat" where
  "clamp_index n x = nat (max 0 (min (int n - 1) x))"

definition edge_padded_max :: "grid \<Rightarrow> nat \<Rightarrow> nat \<Rightarrow> real" where
  "edge_padded_max g i j =
     max_list (concat (map (\<lambda>di. map (\<lambda>dj. g ! clamp_index (length g) (int i + di)
                                              ! clamp_index (length (g ! i)) (int j + dj))
                                      [-1, 0, 1]) [-1, 0, 1]))"


section \<open>Single-precision arithmetic on index tensors\<close>

text \<open>
  Index tensors hold \<^verbatim>\<open>int64\<close> values. \<^verbatim>\<open>x.float()\<close> converts an integer to the nearest
  single-precision number, and \<^verbatim>\<open>x / d\<close> on an integer tensor is a true division: both
  operands are converted to single precision and the quotient is rounded to the nearest
  single-precision number again, as the CPU kernel computes it; \<^verbatim>\<open>.int()\<close> then drops the
  fraction and gives a 32-bit integer, which holds every quotient and remainder of a map
  with fewer than \<open>2^31\<close> cells. A single-precision number has a significand of 24 bits,
  and rounding goes to the nearest number, to the even significand on a tie. Integers up
  to \<open>2^24\<close> are converted exactly; beyond that the conversion and the division round,
  and the truncated quotient can differ from the integer quotient.

  \<open>rne num den\<close> is the quotient \<open>num / den\<close> rounded to the nearest integer, ties to even.
\<close>

definition rne :: "nat \<Rightarrow> nat \<Rightarrow> nat" where
  "rne num den = (let q = num div den; r = num mod den in
     if den < 2 * r \<or> (2 * r = den \<and> odd q) then q + 1 else q)"

text \<open>
  The single-precision number nearest to the integer \<open>n\<close>, which is an integer again:
  \<open>floorlog 2 n\<close> is the number of bits of \<open>n\<close>, and the bits below the leading 24 are
  rounded away.
\<close>

definition f32_of_nat :: "nat \<Rightarrow> nat" where
  "f32_of_nat n = (let s = floorlog 2 n - 24 in rne n (2 ^ s) * 2 ^ s)"

text \<open>
  The integer part of the single-precision quotient of two single-precision integers
  \<open>a\<close> and \<open>b > 0\<close>. For \<open>a < b\<close> the quotient lies below one and is rounded up to one
  exactly when it is at least \<open>1 - 1 / 2^25\<close>. Otherwise the quotient lies between
  \<open>2^e\<close> and \<open>2^(e+1)\<close> for the exponent \<open>e\<close> of \<open>a div b\<close>, where the
  single-precision numbers are the multiples of \<open>2^(e-23)\<close>.
\<close>

definition f32_div_int :: "nat \<Rightarrow> nat \<Rightarrow> nat" where
  "f32_div_int a b =
     (if a < b then (if b * (2 ^ 25 - 1) \<le> a * 2 ^ 25 then 1 else 0)
      else let e = floorlog 2 (a div b) - 1 in
        if e \<le> 23 then rne (a * 2 ^ (23 - e)) b div 2 ^ (23 - e)
        else rne a (b * 2 ^ (e - 23)) * 2 ^ (e - 23))"

text \<open>
  \<^verbatim>\<open>(x / d).int()\<close> and \<^verbatim>\<open>x.int().float()\<close> on an entry \<open>x\<close> of an index tensor. The divisor
  is never zero where an entry exists: it is the width of a map with at least \<open>K \<ge> 1\<close>
  cells, or \<open>K\<close> itself for a tensor of \<open>K\<close> entries.
\<close>

definition div_int :: "nat \<Rightarrow> nat \<Rightarrow> nat" where
  "div_int x d = f32_div_int (f32_of_nat x) (f32_of_nat d)"

definition float_of :: "nat \<Rightarrow> real" where
  "float_of n = real (f32_of_nat n)"

section \<open>Top-K selection and indexed gathering\<close>

text \<open>
  \<^verbatim>\<open>torch.topk(input, k)\<close> along the last axis: the \<open>k\<close> largest entries in descending
  order together with their positions; it raises when \<open>k\<close> exceeds the length of the axis.
  PyTorch leaves the order among equal values open; the model ranks the entries by a
  stable descending sort of the (value, position) pairs, so among equal values the lower
  position comes first.
\<close>

definition topk :: "real list \<Rightarrow> nat \<Rightarrow> error + (real list \<times> nat list)" where
  "topk xs k =
     (if length xs < k then Inl RuntimeError
      else let ranked = take k (sort_key (\<lambda>p. - fst p) (zip xs [0 ..< length xs]))
           in Inr (map fst ranked, map snd ranked))"

text \<open>
  \<^verbatim>\<open>_topk_channel\<close>: per channel, the \<open>K\<close> best cells of the flattened map
  (\<^verbatim>\<open>scores.view(batch, cat, -1)\<close> is \<open>concat\<close> of the rows; the view raises on a tensor
  without images or without channels, where the size that \<open>-1\<close> stands for is not
  determined), their flat index reduced
  modulo \<open>height * width\<close>, and their row and column. The row
  \<^verbatim>\<open>(topk_inds / width).int().float()\<close> is a single-precision quotient, truncated; the
  column \<^verbatim>\<open>(topk_inds % width).int().float()\<close> is an exact remainder, converted.
\<close>

definition topk_channel ::
  "tensor4 \<Rightarrow> nat \<Rightarrow> error + (tensor3 \<times> nat list list list \<times> tensor3 \<times> tensor3)" where
  "topk_channel scores K =
     (case size4 scores of (batch, cat, height, width) \<Rightarrow>
        if batch = 0 \<or> cat = 0 then Inl RuntimeError
        else
        bindE (mapE (mapE (\<lambda>g. topk (concat g) K)) scores) (\<lambda>r.
          let topk_scores = map (map fst) r;
              topk_inds = map (map (\<lambda>p. map (\<lambda>i. i mod (height * width)) (snd p))) r;
              topk_ys = map (map (map (\<lambda>i. float_of (div_int i width)))) topk_inds;
              topk_xs = map (map (map (\<lambda>i. float_of (i mod width)))) topk_inds
          in Inr (topk_scores, topk_inds, topk_ys, topk_xs)))"

text \<open>
  \<^verbatim>\<open>_gather_feat(feat, ind)\<close> with \<^verbatim>\<open>feat\<close> of shape \<open>(B, N, D)\<close> and \<^verbatim>\<open>ind\<close> of shape
  \<open>(B, M)\<close>: the index is expanded along the last axis to the full width \<open>D\<close>, so
  \<^verbatim>\<open>feat.gather(1, ind)\<close> copies row \<open>ind[b, m]\<close> of image \<open>b\<close> whole. \<^verbatim>\<open>gather\<close> raises when
  an index is not below \<open>N\<close> or when the index tensor has more images than \<^verbatim>\<open>feat\<close>. No call
  in the file passes \<^verbatim>\<open>mask\<close>, so only the \<^verbatim>\<open>mask is None\<close> path is modelled.
\<close>

definition gather_feat :: "'a list list list \<Rightarrow> nat list list \<Rightarrow> error + 'a list list list" where
  "gather_feat feat ind =
     (if length feat < length ind then Inl RuntimeError
      else mapE (\<lambda>(f, idx). mapE (\<lambda>i. if i < length f then Inr (f ! i) else Inl RuntimeError) idx)
                (zip feat ind))"

text \<open>
  Memory layout. A freshly computed tensor is contiguous: the stride of an axis is the
  product of the sizes of the axes after it. \<^verbatim>\<open>permute\<close> reorders sizes and strides
  without moving data, and \<^verbatim>\<open>view\<close> never copies: it can merge adjacent axes into one
  only when \<open>stride[d] = stride[d+1] * size[d+1]\<close> holds along the merged run, and raises
  otherwise, unless the tensor has no element at all. Axes of size one, which \<^verbatim>\<open>view\<close>
  treats leniently, are never among the merged axes of a view that this model rejects.
\<close>

fun contiguous_strides :: "nat list \<Rightarrow> nat list" where
  "contiguous_strides [] = []"
| "contiguous_strides (n # ns) = prod_list ns # contiguous_strides ns"

definition permute_axes :: "nat list \<Rightarrow> 'a list \<Rightarrow> 'a list" where
  "permute_axes p xs = map (\<lambda>d. xs ! d) p"

fun mergeable :: "(nat \<times> nat) list \<Rightarrow> bool" where
  "mergeable ((n1, s1) # (n2, s2) # ds) = (s1 = s2 * n2 \<and> mergeable ((n2, s2) # ds))"
| "mergeable ds = True"

text \<open>\<open>view_merge sizes strides lo hi\<close>: may a view merge the axes \<open>lo, \<dots>, hi - 1\<close>?\<close>

definition view_merge :: "nat list \<Rightarrow> nat list \<Rightarrow> nat \<Rightarrow> nat \<Rightarrow> bool" where
  "view_merge sizes strides lo hi =
     (prod_list sizes = 0 \<or> mergeable (take (hi - lo) (drop lo (zip sizes strides))))"

text \<open>
  \<^verbatim>\<open>_permute_and_gather_feat\<close>: \<^verbatim>\<open>feat.permute(0, 2, 3, 1)\<close> followed by
  \<^verbatim>\<open>.view(B, -1, C)\<close>, which merges the axes height and width of the permuted tensor and
  turns the \<open>C\<close> flattened channels of an image into \<open>H * W\<close> rows of \<open>C\<close> values: the
  transpose of the list of flattened channels. The field is a contiguous tensor.
\<close>

definition permute_view :: "'a list list list list \<Rightarrow> 'a list list list" where
  "permute_view feat = map (\<lambda>chs. transpose (map concat chs)) feat"

definition permute_and_gather_feat ::
  "'a list list list list \<Rightarrow> nat list list \<Rightarrow> error + 'a list list list" where
  "permute_and_gather_feat feat ind =
     (case size4 feat of (b, c, h, w) \<Rightarrow>
        if view_merge (permute_axes [0, 2, 3, 1] [b, c, h, w])
                      (permute_axes [0, 2, 3, 1] (contiguous_strides [b, c, h, w])) 1 3
        then gather_feat (permute_view feat) ind
        else Inl RuntimeError)"

text \<open>
  \<^verbatim>\<open>_topk\<close>: lines 103 to 109 repeat the body of \<^verbatim>\<open>_topk_channel\<close>; then the \<open>K\<close> best
  of the \<open>cat * K\<close> per-class candidates of each image are taken
  (\<^verbatim>\<open>topk_scores.view(batch, -1)\<close>), the class \<^verbatim>\<open>(topk_ind / K).int()\<close> is the
  single-precision quotient of the rank in that flattened list by \<open>K\<close>, truncated, and
  index, row and column are gathered at the rank
  (\<^verbatim>\<open>x.view(batch, -1, 1)\<close> makes each entry a row of width one, \<^verbatim>\<open>.view(batch, K)\<close>
  flattens the rows again).
\<close>

definition topk_global ::
  "tensor4 \<Rightarrow> nat \<Rightarrow> error + (grid \<times> nat list list \<times> nat list list \<times> grid \<times> grid)" where
  "topk_global scores K =
     bindE (topk_channel scores K) (\<lambda>(topk_scores, topk_inds, topk_ys, topk_xs).
     bindE (mapE (\<lambda>chs. topk (concat chs) K) topk_scores) (\<lambda>r.
       let topk_score = map fst r;
           topk_ind = map snd r;
           topk_clses = map (map (\<lambda>i. div_int i K)) topk_ind
       in
     bindE (gather_feat (map (\<lambda>chs. map (\<lambda>x. [x]) (concat chs)) topk_inds) topk_ind) (\<lambda>gi.
     bindE (gather_feat (map (\<lambda>chs. map (\<lambda>x. [x]) (concat chs)) topk_ys) topk_ind) (\<lambda>gy.
     bindE (gather_feat (map (\<lambda>chs. map (\<lambda>x. [x]) (concat chs)) topk_xs) topk_ind) (\<lambda>gx.
       Inr (topk_score, map concat gi, topk_clses, map concat gy, map concat gx))))))"

section \<open>Back-projection: \<^verbatim>\<open>transform_img2cam\<close>\<close>

text \<open>
  The dictionary \<^verbatim>\<open>meta\<close> is a partial map from keys to tensors; reading a missing key
  raises \<^verbatim>\<open>KeyError\<close>.
\<close>

type_synonym meta = "string \<rightharpoonup> tensor3"

definition lookup :: "meta \<Rightarrow> string \<Rightarrow> error + tensor3" where
  "lookup m key = (case m key of None \<Rightarrow> Inl KeyError | Some v \<Rightarrow> Inr v)"

text \<open>\<^verbatim>\<open>torch.bmm\<close> on one pair of matrices.\<close>

definition mat_mul :: "grid \<Rightarrow> grid \<Rightarrow> grid" where
  "mat_mul a b = map (\<lambda>row. map (\<lambda>col. sum_list (map2 (*) row col)) (transpose b)) a"

text \<open>
  \<^verbatim>\<open>x.view(-1, 2)\<close> on the \<open>2J\<close> interleaved coordinates of one object: the list of its
  \<open>(x, y)\<close> pairs.
\<close>

fun pairs :: "'a list \<Rightarrow> 'a list list" where
  "pairs (x # y # zs) = [x, y] # pairs zs"
| "pairs zs = []"

text \<open>
  Lines 160 to 172: the keypoints of every object are mapped through the affine
  \<^verbatim>\<open>trans_output_inv\<close>. \<^verbatim>\<open>kps.view(batch, boxes, -1, 2).permute(0, 1, 3, 2)\<close> is the
  transpose of the pairs (a row of \<open>x\<close> and a row of \<open>y\<close>), \<^verbatim>\<open>torch.cat\<close> with the
  \<open>(batch, boxes, 1, 9)\<close> tensor of ones raises unless there are exactly nine keypoints.
  The result of \<^verbatim>\<open>torch.bmm(...).view(batch, boxes, 2, 9)\<close> is contiguous; line 172 permutes
  its last two axes and then merges them with \<^verbatim>\<open>.view(batch, boxes, -1)\<close>, without a
  \<^verbatim>\<open>.contiguous()\<close> in between.
\<close>

definition kps_to_image :: "tensor3 \<Rightarrow> tensor3 \<Rightarrow> error + tensor3" where
  "kps_to_image kps out_inv =
     (let batch = length kps; boxes = length (hd kps) in
      bindE (expand_axis batch out_inv) (\<lambda>out_inv.
      bindE (mapE (mapE (\<lambda>kp. if even (length kp) then Inr (transpose (pairs kp))
                              else Inl RuntimeError)) kps) (\<lambda>kps.
      bindE (mapE (mapE (\<lambda>m. if m \<noteq> [] \<and> list_all (\<lambda>row. length row = 9) m
                             then Inr (m @ [replicate 9 1]) else Inl RuntimeError)) kps) (\<lambda>kps.
      let kps = map2 (\<lambda>m ms. map (mat_mul m) ms) out_inv kps in
      if view_merge (permute_axes [0, 1, 3, 2] [batch, boxes, 2, 9])
                    (permute_axes [0, 1, 3, 2] (contiguous_strides [batch, boxes, 2, 9])) 2 4
      then Inr (map (map (\<lambda>m. concat (transpose m))) kps)
      else Inl RuntimeError))))"

text \<open>
  A division of floating-point entries. By a zero it raises nothing and yields an
  infinity or a NaN, and which of them depends on the sign of the zero, which a real
  number does not record. The model gives such a quotient no value: it is \<open>None\<close>, and
  so is every entry computed from it. An entry \<open>Some v\<close> is the value of the source.
\<close>

definition fdiv :: "real \<Rightarrow> real \<Rightarrow> real option" where
  "fdiv x y = (if y = 0 then None else Some (x / y))"

definition lift2 :: "(real \<Rightarrow> real \<Rightarrow> real) \<Rightarrow> real option \<Rightarrow> real option \<Rightarrow> real option" where
  "lift2 f a b = (case (a, b) of (Some x, Some y) \<Rightarrow> Some (f x y) | _ \<Rightarrow> None)"

text \<open>\<^verbatim>\<open>torch.atan2(y, x)\<close> on real numbers.\<close>

definition atan2 :: "real \<Rightarrow> real \<Rightarrow> real" where
  "atan2 y x =
     (if 0 < x then arctan (y / x)
      else if x < 0 \<and> 0 \<le> y then arctan (y / x) + pi
      else if x < 0 then arctan (y / x) - pi
      else if 0 < y then pi / 2
      else if y < 0 then - pi / 2
      else 0)"

text \<open>
  Lines 174 to 189 for one object: \<^verbatim>\<open>rot\<close> is its rotation encoding, \<open>kp_x\<close> the
  \<open>x\<close> coordinate of its ninth keypoint (\<^verbatim>\<open>kps[:, :, 16:17]\<close>), \<open>cx\<close> and \<open>f\<close> the entries
  \<^verbatim>\<open>calib[:, 0, 2]\<close> and \<^verbatim>\<open>calib[:, 0, 0]\<close>. Both quotients \<^verbatim>\<open>rot[2] / rot[3]\<close> and
  \<^verbatim>\<open>rot[6] / rot[7]\<close> enter \<^verbatim>\<open>alpna_pre\<close>, whichever bin is selected. The two masked
  assignments of lines 188 and 189 run one after the other.
\<close>

definition alpna_pre :: "real list \<Rightarrow> real option" where
  "alpna_pre rot =
     (let alpha_idx = (if rot ! 1 > rot ! 5 then 1 else 0);
          alpha1 = map_option (\<lambda>q. arctan q + (- 0.5 * pi)) (fdiv (rot ! 2) (rot ! 3));
          alpha2 = map_option (\<lambda>q. arctan q + (0.5 * pi)) (fdiv (rot ! 6) (rot ! 7))
      in lift2 (\<lambda>alpha1 alpha2. alpha1 * alpha_idx + alpha2 * (1 - alpha_idx)) alpha1 alpha2)"

definition rot_y_of :: "real list \<Rightarrow> real \<Rightarrow> real \<Rightarrow> real \<Rightarrow> real option" where
  "rot_y_of rot kp_x cx f =
     map_option (\<lambda>alpna_pre.
       let rot_y = alpna_pre + atan2 (kp_x - cx) f;
           rot_y = (if rot_y > pi then rot_y - 2 * pi else rot_y);
           rot_y = (if rot_y < - pi then rot_y + 2 * pi else rot_y)
       in rot_y) (alpna_pre rot)"

text \<open>
  Line 202: \<^verbatim>\<open>kp_norm = (kpoint - cxy) / f\<close> with \<^verbatim>\<open>cxy\<close> the pair \<open>(cx, cy)\<close> repeated eight
  times.
\<close>

definition kp_norm_of :: "real list \<Rightarrow> grid \<Rightarrow> real option list" where
  "kp_norm_of kpoint cal =
     map2 (\<lambda>k c. fdiv (k - c) (cal ! 0 ! 0)) kpoint (concat (replicate 8 [cal ! 0 ! 2, cal ! 1 ! 2]))"

text \<open>The sixteen entries of \<^verbatim>\<open>data_B\<close> and of \<^verbatim>\<open>data_C\<close>, lines 221 to 251.\<close>

definition data_B :: "real \<Rightarrow> real \<Rightarrow> real \<Rightarrow> real \<Rightarrow> real list" where
  "data_B height width len rot_y =
     (let cos_rot_y = cos rot_y; sin_rot_y = sin rot_y in
      [len * 0.5 * cos_rot_y + width * 0.5 * sin_rot_y, height * 0.5,
       len * 0.5 * cos_rot_y - width * 0.5 * sin_rot_y, height * 0.5,
       - len * 0.5 * cos_rot_y - width * 0.5 * sin_rot_y, height * 0.5,
       - len * 0.5 * cos_rot_y + width * 0.5 * sin_rot_y, height * 0.5,
       len * 0.5 * cos_rot_y + width * 0.5 * sin_rot_y, - height * 0.5,
       len * 0.5 * cos_rot_y - width * 0.5 * sin_rot_y, - height * 0.5,
       - len * 0.5 * cos_rot_y - width * 0.5 * sin_rot_y, - height * 0.5,
       - len * 0.5 * cos_rot_y + width * 0.5 * sin_rot_y, - height * 0.5])"

definition data_C :: "real \<Rightarrow> real \<Rightarrow> real \<Rightarrow> real \<Rightarrow> real list" where
  "data_C height width len rot_y =
     (let cos_rot_y = cos rot_y; sin_rot_y = sin rot_y in
      [- len * 0.5 * sin_rot_y + width * 0.5 * cos_rot_y,
       - len * 0.5 * sin_rot_y + width * 0.5 * cos_rot_y,
       - len * 0.5 * sin_rot_y - width * 0.5 * cos_rot_y,
       - len * 0.5 * sin_rot_y - width * 0.5 * cos_rot_y,
       len * 0.5 * sin_rot_y - width * 0.5 * cos_rot_y,
       len * 0.5 * sin_rot_y - width * 0.5 * cos_rot_y,
       len * 0.5 * sin_rot_y + width * 0.5 * cos_rot_y,
       len * 0.5 * sin_rot_y + width * 0.5 * cos_rot_y,
       - len * 0.5 * sin_rot_y + width * 0.5 * cos_rot_y,
       - len * 0.5 * sin_rot_y + width * 0.5 * cos_rot_y,
       - len * 0.5 * sin_rot_y - width * 0.5 * cos_rot_y,
       - len * 0.5 * sin_rot_y - width * 0.5 * cos_rot_y,
       len * 0.5 * sin_rot_y - width * 0.5 * cos_rot_y,
       len * 0.5 * sin_rot_y - width * 0.5 * cos_rot_y,
       len * 0.5 * sin_rot_y + width * 0.5 * cos_rot_y,
       len * 0.5 * sin_rot_y + width * 0.5 * cos_rot_y])"

text \<open>
  \<^verbatim>\<open>torch.FloatTensor([t0, ..., t15])\<close>: every list entry is itself a tensor of shape
  \<open>(batch, boxes, 1)\<close> (\<^verbatim>\<open>length\<close>, \<^verbatim>\<open>cos_rot_y\<close> and the others are kept as tensors), and the
  constructor turns each entry into one scalar; it raises \<^verbatim>\<open>ValueError\<close> on an entry with
  more than one element. The result is a vector of sixteen numbers, which
  \<^verbatim>\<open>matrix_B[:, :, :] = data_B\<close> broadcasts over all objects.
\<close>

definition float_tensor :: "'a list list list list \<Rightarrow> error + 'a list" where
  "float_tensor ts =
     mapE (\<lambda>t. case concat (concat t) of [v] \<Rightarrow> Inr v | _ \<Rightarrow> Inl ValueError) ts"

definition entry_tensors ::
  "(real \<Rightarrow> real \<Rightarrow> real \<Rightarrow> real \<Rightarrow> real list) \<Rightarrow> tensor3 \<Rightarrow> real option list list list
     \<Rightarrow> real option list list list list" where
  "entry_tensors entries dims rot_y =
     map (\<lambda>i. map2 (map2 (\<lambda>d r. [map_option (\<lambda>y. entries (d ! 0) (d ! 1) (d ! 2) y ! i) (r ! 0)]))
                     dims rot_y) [0 ..< 16]"

text \<open>
  \<^verbatim>\<open>torch.inverse\<close> of a \<open>3\<times>3\<close> matrix, by cofactors; it raises on a singular matrix.
\<close>

definition det3 :: "grid \<Rightarrow> real" where
  "det3 m = m ! 0 ! 0 * (m ! 1 ! 1 * m ! 2 ! 2 - m ! 1 ! 2 * m ! 2 ! 1)
          - m ! 0 ! 1 * (m ! 1 ! 0 * m ! 2 ! 2 - m ! 1 ! 2 * m ! 2 ! 0)
          + m ! 0 ! 2 * (m ! 1 ! 0 * m ! 2 ! 1 - m ! 1 ! 1 * m ! 2 ! 0)"

definition inverse3 :: "grid \<Rightarrow> error + grid" where
  "inverse3 m =
     (if det3 m = 0 then Inl RuntimeError
      else Inr (map (map (\<lambda>v. v / det3 m))
        [[m ! 1 ! 1 * m ! 2 ! 2 - m ! 1 ! 2 * m ! 2 ! 1,
          m ! 0 ! 2 * m ! 2 ! 1 - m ! 0 ! 1 * m ! 2 ! 2,
          m ! 0 ! 1 * m ! 1 ! 2 - m ! 0 ! 2 * m ! 1 ! 1],
         [m ! 1 ! 2 * m ! 2 ! 0 - m ! 1 ! 0 * m ! 2 ! 2,
          m ! 0 ! 0 * m ! 2 ! 2 - m ! 0 ! 2 * m ! 2 ! 0,
          m ! 0 ! 2 * m ! 1 ! 0 - m ! 0 ! 0 * m ! 1 ! 2],
         [m ! 1 ! 0 * m ! 2 ! 1 - m ! 1 ! 1 * m ! 2 ! 0,
          m ! 0 ! 1 * m ! 2 ! 0 - m ! 0 ! 0 * m ! 2 ! 1,
          m ! 0 ! 0 * m ! 1 ! 1 - m ! 0 ! 1 * m ! 1 ! 0]]))"

text \<open>
  Lines 256 to 276 for one object: \<^verbatim>\<open>matrix_left\<close> is its \<open>16\<times>3\<close> matrix, \<^verbatim>\<open>matrix_right\<close>
  its right-hand side; the position is
  \<^verbatim>\<open>inverse(matrix_left^T matrix_left) matrix_left^T matrix_right\<close>.
\<close>

definition solve_position :: "grid \<Rightarrow> real list \<Rightarrow> error + real list" where
  "solve_position matrix_left matrix_right =
     (let matrix_left_transposed = transpose matrix_left;
          points_3d = mat_mul matrix_left_transposed matrix_left in
      bindE (inverse3 points_3d) (\<lambda>points_3d_inv.
        let points_3d_inv = mat_mul points_3d_inv matrix_left_transposed;
            points_3d_inv = mat_mul points_3d_inv (map (\<lambda>v. [v]) matrix_right)
        in Inr (concat points_3d_inv)))"

text \<open>
  The solver on entries that may have no value. \<^verbatim>\<open>torch.inverse\<close> sees \<^verbatim>\<open>matrix_left\<close>
  only, so a right-hand side without a value leaves the exception as it is and the
  position without a value. What \<^verbatim>\<open>torch.inverse\<close> does with a \<^verbatim>\<open>matrix_left\<close> that
  holds an infinity or a NaN is not modelled: the position has no value then and no
  exception is reported.
\<close>

definition solve_position_values ::
  "real option list list \<Rightarrow> real option list \<Rightarrow> error + real option list" where
  "solve_position_values matrix_left matrix_right =
     (case those (map those matrix_left) of
        None \<Rightarrow> Inr [None, None, None]
      | Some l \<Rightarrow>
          (case those matrix_right of
             Some r \<Rightarrow> bindE (solve_position l r) (\<lambda>p. Inr (map Some p))
           | None \<Rightarrow> bindE (inverse3 (mat_mul (transpose l) l)) (\<lambda>inv. Inr [None, None, None])))"

text \<open>
  \<^verbatim>\<open>transform_img2cam\<close>. The view of line 260 merges the axes batch and boxes of the
  permuted \<^verbatim>\<open>matrix_left\<close>, which is always possible. The yaw and the position are
  returned as tensors of entries that may have no value.
\<close>

definition transform_img2cam ::
  "tensor3 \<Rightarrow> tensor3 \<Rightarrow> tensor3 \<Rightarrow> meta \<Rightarrow> tensor4 option
     \<Rightarrow> error + (real option list list list \<times> real option list list list \<times> tensor3)" where
  "transform_img2cam kps dims rot m const =
     (let batch = length kps; boxes = length (hd kps) in
      bindE (lookup m ''trans_output_inv'') (\<lambda>out_inv.
      bindE (lookup m ''calib'') (\<lambda>calib.
      bindE (kps_to_image kps out_inv) (\<lambda>kps.
      bindE (expand_axis batch calib) (\<lambda>calib.
      let rot_y = map2 (\<lambda>cal (kpsb, rotb).
                          map2 (\<lambda>kp r. [rot_y_of r (kp ! 16) (cal ! 0 ! 2) (cal ! 0 ! 0)]) kpsb rotb)
                       calib (zip kps rot);
          kp_norm = map2 (\<lambda>cal kpsb. map (\<lambda>kp. kp_norm_of (take 16 kp) cal) kpsb) calib kps
      in
      bindE (case const of None \<Rightarrow> Inl AttributeError
             | Some c \<Rightarrow> bindE (expand_axis batch c) (mapE (expand_axis boxes))) (\<lambda>const.
      let matrix_left = map2 (map2 (\<lambda>cn kn. map2 (\<lambda>crow k. map Some crow @ [k]) cn kn))
                             const kp_norm in
      bindE (float_tensor (entry_tensors data_B dims rot_y)) (\<lambda>data_B.
      bindE (float_tensor (entry_tensors data_C dims rot_y)) (\<lambda>data_C.
      let matrix_B = map (map (\<lambda>kn. data_B)) kp_norm;
          matrix_C = map (map (\<lambda>kn. data_C)) kp_norm;
          matrix_right = map2 (map2 (\<lambda>(b, c) kn.
                                 map2 (\<lambda>(b, c) k. lift2 (\<lambda>b kc. b - kc) b (lift2 (\<lambda>k c. k * c) k c))
                                      (zip b c) kn))
                              (map2 zip matrix_B matrix_C) kp_norm
      in
      if \<not> view_merge (permute_axes [0, 1, 3, 2] [batch, boxes, 16, 3])
                       (permute_axes [0, 1, 3, 2] (contiguous_strides [batch, boxes, 16, 3])) 0 2
      then Inl RuntimeError
      else
      bindE (mapE (\<lambda>(ls, rs). mapE (\<lambda>(l, r). solve_position_values l r) (zip ls rs))
                  (zip matrix_left matrix_right)) (\<lambda>points_3d_inv.
      Inr (points_3d_inv, rot_y, kps))))))))))"
section \<open>Keypoint refinement, lines 360 to 406 of \<^verbatim>\<open>object_pose_decode\<close>\<close>

text \<open>
  The size arguments of \<^verbatim>\<open>expand\<close> and \<^verbatim>\<open>view\<close> are Python values: an integer, or, at
  lines 403 and 405, the tensor \<^verbatim>\<open>bottom\<close>. A tensor of floating-point numbers is not
  accepted as a size, whatever its shape: the call raises \<^verbatim>\<open>TypeError\<close>.
\<close>

datatype size_arg = IntArg nat | TensorArg tensor4

definition int_sizes :: "size_arg list \<Rightarrow> error + nat list" where
  "int_sizes args = mapE (\<lambda>a. case a of IntArg n \<Rightarrow> Inr n | TensorArg t \<Rightarrow> Inl TypeError) args"

text \<open>\<^verbatim>\<open>t.expand(n0, n1, n2, n3)\<close> of a tensor of rank four.\<close>

definition expand4 :: "tensor4 \<Rightarrow> size_arg list \<Rightarrow> error + tensor4" where
  "expand4 t args =
     bindE (int_sizes args) (\<lambda>ns.
       if length ns \<noteq> 4 then Inl RuntimeError
       else bindE (expand_axis (ns ! 0) t)
              (mapE (\<lambda>t1. bindE (expand_axis (ns ! 1) t1)
                (mapE (\<lambda>t2. bindE (expand_axis (ns ! 2) t2)
                  (mapE (expand_axis (ns ! 3))))))))"

text \<open>
  \<^verbatim>\<open>kps.permute(0, 2, 1, 3).view(n0, n1, n2)\<close> of a contiguous \<open>(B, J, K, 2)\<close> tensor:
  the permutation exchanges the axes of keypoints and objects, the view merges the last
  two axes of the permuted tensor.
\<close>

definition permute_view_kps :: "tensor4 \<Rightarrow> size_arg list \<Rightarrow> error + tensor3" where
  "permute_view_kps kps args =
     bindE (int_sizes args) (\<lambda>ns.
       case size4 kps of (b, j, k, c) \<Rightarrow>
         if \<not> view_merge (permute_axes [0, 2, 1, 3] [b, j, k, c])
                          (permute_axes [0, 2, 1, 3] (contiguous_strides [b, j, k, c])) 2 4
         then Inl RuntimeError
         else if ns \<noteq> [b, k, j * c] then Inl RuntimeError
         else Inr (map (\<lambda>t. map concat (transpose t)) kps))"

definition thresh :: real where
  "thresh = 0.1"

text \<open>
  Lines 376 to 379 on one heatmap candidate with score \<open>s\<close>:
  \<^verbatim>\<open>mask = (hm_score > thresh).float()\<close>, then the score and each coordinate \<open>v\<close> are blended
  with \<open>-1\<close> and with \<open>-10000\<close>.
\<close>

definition score_mask :: "real \<Rightarrow> real" where
  "score_mask s = (if s > thresh then 1 else 0)"

definition masked_score :: "real \<Rightarrow> real" where
  "masked_score s = (1 - score_mask s) * (- 1) + score_mask s * s"

definition masked_coord :: "real \<Rightarrow> real \<Rightarrow> real" where
  "masked_coord s v = (1 - score_mask s) * (- 10000) + score_mask s * v"

text \<open>
  Lines 382 to 390 for one regression keypoint \<open>kp\<close> of one object and the \<open>K\<close> candidates
  \<open>hm_kps\<close> of its channel with their scores: the Euclidean distances
  \<^verbatim>\<open>((reg_kps - hm_kps)**2).sum(dim=4)**0.5\<close>, their minimum and the first position where
  it is attained (\<^verbatim>\<open>dist.min(dim=3)\<close>), and the score and the coordinates gathered there.
\<close>

fun first_index :: "('a \<Rightarrow> bool) \<Rightarrow> 'a list \<Rightarrow> nat" where
  "first_index P [] = 0"
| "first_index P (x # xs) = (if P x then 0 else Suc (first_index P xs))"

definition dist_row :: "real list \<Rightarrow> grid \<Rightarrow> real list" where
  "dist_row kp hm_kps = map (\<lambda>h. sqrt (sum_list (map2 (\<lambda>a b. (a - b)\<^sup>2) kp h))) hm_kps"

definition min_ind_of :: "real list \<Rightarrow> nat" where
  "min_ind_of dists = first_index (\<lambda>d. d = min_list dists) dists"

definition match_nearest :: "real list \<Rightarrow> grid \<Rightarrow> real list \<Rightarrow> real \<times> real \<times> real list" where
  "match_nearest kp hm_kps hm_score =
     (let dists = dist_row kp hm_kps;
          min_dist = min_list dists;
          min_ind = min_ind_of dists
      in (hm_score ! min_ind, min_dist, hm_kps ! min_ind))"

text \<open>
  Lines 391 to 402 for one keypoint of one object with box \<open>bbox\<close>: the sum of the six
  comparisons is positive exactly when one of them holds.
\<close>

definition reject :: "real list \<Rightarrow> real list \<Rightarrow> real \<Rightarrow> real \<Rightarrow> real" where
  "reject bbox hm_kp hm_score min_dist =
     (let left = bbox ! 0; top' = bbox ! 1; right = bbox ! 2; bottom = bbox ! 3 in
      if hm_kp ! 0 < left \<or> hm_kp ! 0 > right \<or> hm_kp ! 1 < top' \<or> hm_kp ! 1 > bottom
         \<or> hm_score < thresh \<or> min_dist > max (bottom - top') (right - left) * 0.3
      then 1 else 0)"

text \<open>
  The whole block. \<^verbatim>\<open>kps\<close> arrives as \<open>(B, K, 2J)\<close> and \<^verbatim>\<open>bboxes\<close> as \<open>(B, K, 4)\<close>, and the
  keypoint heatmap is taken to have the batch size \<open>B\<close> of \<^verbatim>\<open>heat\<close>. Its candidates must
  come in \<open>num_joints\<close> channels. With another number of channels the source raises
  \<^verbatim>\<open>RuntimeError\<close>: at the view of line 370 or at the broadcast of line 371 or 380, or, when
  the heatmap has a single channel, which a broadcast replicates, at the \<^verbatim>\<open>gather\<close> of line
  385, whose index then has more channels than \<^verbatim>\<open>hm_score\<close>. In between,
  \<^verbatim>\<open>dist.min(dim=3)\<close> raises \<^verbatim>\<open>IndexError\<close> on an axis of size zero. Lines 403 and 405 pass
  the tensor \<^verbatim>\<open>bottom\<close> where the size \<^verbatim>\<open>batch\<close> is expected.
\<close>

definition refine_keypoints ::
  "tensor4 \<Rightarrow> tensor4 option \<Rightarrow> tensor3 \<Rightarrow> tensor3 \<Rightarrow> nat \<Rightarrow> nat \<Rightarrow> nat
     \<Rightarrow> error + (tensor3 \<times> tensor3)" where
  "refine_keypoints kps_heatmap kps_offsets kps bboxes batch num_joints K =
     (let kps_heatmap = nms kps_heatmap;
          kps = map (\<lambda>kb. transpose (map pairs kb)) kps in
      bindE (topk_channel kps_heatmap K) (\<lambda>(hm_score, hm_inds, hm_ys, hm_xs).
      if \<not> list_all (\<lambda>sb. length sb = num_joints \<or> length sb = 1) hm_score
      then Inl RuntimeError
      else
      bindE (case kps_offsets of
               Some kps_offsets \<Rightarrow>
                 bindE (permute_and_gather_feat kps_offsets (map concat hm_inds)) (\<lambda>off.
                 bindE (view_last 2 off) (\<lambda>off.
                 if \<not> list_all (\<lambda>ob. length ob = num_joints * K) off then Inl RuntimeError
                 else
                   let off = map (\<lambda>ob. map (\<lambda>j. take K (drop (j * K) ob)) [0 ..< num_joints]) off
                   in Inr (map2 (map2 (map2 (\<lambda>x e. x + e ! 0))) hm_xs off,
                           map2 (map2 (map2 (\<lambda>y e. y + e ! 1))) hm_ys off)))
             | None \<Rightarrow>
                 Inr (map (map (map (\<lambda>x. x + 0.5))) hm_xs,
                      map (map (map (\<lambda>y. y + 0.5))) hm_ys)) (\<lambda>(hm_xs, hm_ys).
      let hm_ys = map2 (map2 (map2 masked_coord)) hm_score hm_ys;
          hm_xs = map2 (map2 (map2 masked_coord)) hm_score hm_xs;
          hm_score = map (map (map masked_score)) hm_score;
          hm_kps = map2 (map2 (map2 (\<lambda>x y. [x, y]))) hm_xs hm_ys
      in
      if K = 0 then Inl IndexError
      else if \<not> list_all (\<lambda>sb. num_joints \<le> length sb) hm_score then Inl RuntimeError
      else
      let matched = map2 (\<lambda>kb (hb, sb). map2 (\<lambda>kj (hj, sj). map (\<lambda>kp. match_nearest kp hj sj) kj)
                                             kb (zip hb sb))
                         kps (zip hm_kps hm_score);
          hm_score = map (map (map (\<lambda>(s, d, h). [s]))) matched;
          min_dist = map (map (map (\<lambda>(s, d, h). [d]))) matched;
          hm_kps = map (map (map (\<lambda>(s, d, h). h))) matched;
          bottom = map (\<lambda>bb. replicate num_joints (map (\<lambda>box. [box ! 3]) bb)) bboxes;
          mask = map2 (\<lambda>bb mb. map (\<lambda>mj. map2 (\<lambda>box (s, d, h). [reject box h s d]) bb mj) mb)
                      bboxes matched
      in
      bindE (expand4 mask [TensorArg bottom, IntArg num_joints, IntArg K, IntArg 2]) (\<lambda>mask.
      let kps = map2 (map2 (map2 (\<lambda>m (h, k). map2 (\<lambda>m (h, k). (1 - m) * h + m * k) m (zip h k))))
                     mask (map2 (map2 zip) hm_kps kps)
      in
      bindE (permute_view_kps kps [TensorArg bottom, IntArg K, IntArg (num_joints * 2)]) (\<lambda>kps.
      let hm_score = map (\<lambda>s. map concat (transpose s)) hm_score
      in Inr (kps, hm_score))))))"

section \<open>The decoder: \<^verbatim>\<open>object_pose_decode\<close>\<close>

text \<open>
  \<^verbatim>\<open>torch.cat(ts, dim=2)\<close> of tensors of shape \<open>(B, K, \<cdot>)\<close>. The yaw and the position
  come from \<^verbatim>\<open>transform_img2cam\<close> with entries that may have no value; \<open>known\<close> embeds
  the other tensors.
\<close>

definition known :: "tensor3 \<Rightarrow> real option list list list" where
  "known t = map (map (map Some)) t"

definition cat2 :: "'a list list list list \<Rightarrow> 'a list list list" where
  "cat2 ts = map (\<lambda>b. map (\<lambda>k. concat (map (\<lambda>t. t ! b ! k) ts)) [0 ..< length (hd (hd ts))])
                 [0 ..< length (hd ts)]"

text \<open>
  The optional arguments \<^verbatim>\<open>prob\<close>, \<^verbatim>\<open>reg\<close>, \<^verbatim>\<open>kps_heatmap\<close>, \<^verbatim>\<open>kps_offsets\<close>, \<^verbatim>\<open>meta\<close> and
  \<^verbatim>\<open>const\<close> default to \<^verbatim>\<open>None\<close>. The local variable \<^verbatim>\<open>hm_score\<close> is assigned only inside
  \<^verbatim>\<open>if kps_heatmap is not None\<close>; it is modelled as an option that is \<open>None\<close> while the
  variable is unbound, and line 410 reads it.
\<close>

definition object_pose_decode ::
  "tensor4 \<Rightarrow> tensor4 \<Rightarrow> tensor4 \<Rightarrow> tensor4 \<Rightarrow> tensor4 \<Rightarrow> tensor4 option \<Rightarrow> tensor4 option
     \<Rightarrow> tensor4 option \<Rightarrow> tensor4 option \<Rightarrow> nat \<Rightarrow> meta option \<Rightarrow> tensor4 option
     \<Rightarrow> error + real option list list list" where
  "object_pose_decode heat wh kps dims rot prob reg kps_heatmap kps_offsets K m const =
     (case size4 heat of (batch, cat, height, width) \<Rightarrow>
      let num_joints = length (hd kps) div 2;
          heat = nms heat in
      bindE (topk_global heat K) (\<lambda>(scores, inds, clses, ys, xs).
      bindE (permute_and_gather_feat kps inds) (\<lambda>kps.
      bindE (view_last (num_joints * 2) kps) (\<lambda>kps.
      let kps = map2 (\<lambda>kb (xb, yb).
                        map2 (\<lambda>kp (x, y). concat (map (\<lambda>p. [p ! 0 + x, p ! 1 + y]) (pairs kp)))
                             kb (zip xb yb))
                     kps (zip xs ys)
      in
      bindE (case reg of
               Some reg \<Rightarrow>
                 bindE (permute_and_gather_feat reg inds) (\<lambda>reg.
                 bindE (view_last 2 reg) (\<lambda>reg.
                   Inr (map2 (map2 (\<lambda>x r. [x + r ! 0])) xs reg,
                        map2 (map2 (\<lambda>y r. [y + r ! 1])) ys reg)))
             | None \<Rightarrow>
                 Inr (map (map (\<lambda>x. [x + 0.5])) xs, map (map (\<lambda>y. [y + 0.5])) ys)) (\<lambda>(xs, ys).
      bindE (permute_and_gather_feat wh inds) (\<lambda>wh.
      bindE (view_last 2 wh) (\<lambda>wh.
      let clses = map (map (\<lambda>c. [float_of c])) clses;
          scores = map (map (\<lambda>s. [s])) scores;
          bboxes = map2 (\<lambda>wb (xb, yb).
                           map2 (\<lambda>w (x, y). [x ! 0 - w ! 0 / 2, y ! 0 - w ! 1 / 2,
                                              x ! 0 + w ! 0 / 2, y ! 0 + w ! 1 / 2])
                                wb (zip xb yb))
                        wh (zip xs ys)
      in
      bindE (permute_and_gather_feat dims inds) (\<lambda>dims.
      bindE (view_last 3 dims) (\<lambda>dims.
      bindE (permute_and_gather_feat rot inds) (\<lambda>rot.
      bindE (view_last 8 rot) (\<lambda>rot.
      bindE (case prob of None \<Rightarrow> Inl AttributeError
             | Some prob \<Rightarrow> permute_and_gather_feat prob inds) (\<lambda>prob.
      bindE (if list_all (list_all (\<lambda>p. p \<noteq> [])) prob
             then Inr (map (map (\<lambda>p. [p ! 0])) prob) else Inl IndexError) (\<lambda>prob.
      bindE (case kps_heatmap of
               Some kps_heatmap \<Rightarrow>
                 bindE (refine_keypoints kps_heatmap kps_offsets kps bboxes batch num_joints K)
                   (\<lambda>(kps, hm_score). Inr (kps, Some hm_score))
             | None \<Rightarrow> Inr (kps, None)) (\<lambda>(kps, hm_score).
      bindE (case m of None \<Rightarrow> Inl TypeError
             | Some m \<Rightarrow> transform_img2cam kps dims rot m const) (\<lambda>(position, rot_y, kps_inv).
      case hm_score of
        None \<Rightarrow> Inl UnboundLocalError
      | Some hm_score \<Rightarrow>
          Inr (cat2 [known bboxes, known scores, known kps_inv, known dims, known hm_score,
                     rot_y, position, known prob, known clses])
      )))))))))))))))"

section \<open>Example inputs\<close>

text \<open>
  One image, one class, a \<open>1\<times>1\<close> map, \<open>K = 1\<close> and nine keypoints. The regression
  keypoints all decode to \<open>(0.5, 0.5)\<close>, the box is \<open>(-0.5, -0.5, 1.5, 1.5)\<close>, and every
  channel of the keypoint heatmap holds one candidate of score \<open>1\<close> at \<open>(0.5, 0.5)\<close>.
\<close>

definition heat0 :: tensor4 where
  "heat0 = [[[[9/10]]]]"

definition wh0 :: tensor4 where
  "wh0 = [[[[2]], [[2]]]]"

definition kps0 :: tensor4 where
  "kps0 = [[[[1/2]], [[1/2]], [[1/2]], [[1/2]], [[1/2]], [[1/2]], [[1/2]], [[1/2]], [[1/2]],
            [[1/2]], [[1/2]], [[1/2]], [[1/2]], [[1/2]], [[1/2]], [[1/2]], [[1/2]], [[1/2]]]]"

definition dims0 :: tensor4 where
  "dims0 = [[[[1]], [[1]], [[1]]]]"

definition rot0 :: tensor4 where
  "rot0 = [[[[1]], [[1]], [[1]], [[1]], [[1]], [[1]], [[1]], [[1]]]]"

definition prob0 :: tensor4 where
  "prob0 = [[[[1/2]]]]"

definition kps_heatmap0 :: tensor4 where
  "kps_heatmap0 = [[[[1]], [[1]], [[1]], [[1]], [[1]], [[1]], [[1]], [[1]], [[1]]]]"

definition meta0 :: meta where
  "meta0 = [''trans_output_inv'' \<mapsto> [[[1, 0, 0], [0, 1, 0]]],
            ''calib'' \<mapsto> [[[1, 0, 0, 0], [0, 1, 0, 0], [0, 0, 1, 0]]]]"

definition const0 :: tensor4 where
  "const0 = [[[[-1, 0], [0, -1], [-1, 0], [0, -1], [-1, 0], [0, -1], [-1, 0], [0, -1],
               [-1, 0], [0, -1], [-1, 0], [0, -1], [-1, 0], [0, -1], [-1, 0], [0, -1]]]]"

text \<open>Two objects of one image, as \<^verbatim>\<open>transform_img2cam\<close> receives them.\<close>

definition kps_two :: tensor3 where
  "kps_two = [[[0, 0, 1, 0, 1, 1, 0, 1, 0, 0, 1, 0, 1, 1, 0, 1, 1/2, 1/2],
               [2, 2, 3, 2, 3, 3, 2, 3, 2, 2, 3, 2, 3, 3, 2, 3, 5/2, 5/2]]]"

definition dims_two :: tensor3 where
  "dims_two = [[[1, 1, 1], [1, 2, 3]]]"

definition rot_two :: tensor3 where
  "rot_two = [[[0, 1, 1, 1, 0, 0, 0, 1], [0, 0, 0, 1, 0, 1, 1, 1]]]"


text \<open>
  The optional \<^verbatim>\<open>reg\<close> and \<^verbatim>\<open>kps_offsets\<close> for the first example: both offsets are
  \<open>0.5\<close> everywhere, which is also the default that the decoder adds without them.
\<close>

definition reg0 :: tensor4 where
  "reg0 = [[[[1/2]], [[1/2]]]]"

definition kps_offsets0 :: tensor4 where
  "kps_offsets0 = [[[[1/2]], [[1/2]]]]"

text \<open>
  One object, as \<^verbatim>\<open>transform_img2cam\<close> receives it: channel 1 of the rotation encoding
  exceeds channel 5, \<open>atan(rot[2] / rot[3]) - \<pi>/2 = -\<pi>/4\<close>, the ninth keypoint has
  \<open>x = 1\<close>, and with principal point \<open>0\<close> and focal length \<open>1\<close> its bearing is \<open>\<pi>/4\<close>.
\<close>

definition kps_one :: tensor3 where
  "kps_one = [[[0, 0, 1, 0, 1, 1, 0, 1, 0, 0, 1, 0, 1, 1, 0, 1, 1, 1/2]]]"

definition dims_one :: tensor3 where
  "dims_one = [[[1, 1, 1]]]"

definition rot_one :: tensor3 where
  "rot_one = [[[0, 1, 1, 1, 0, 0, 0, 1]]]"
section \<open>Single-precision conversion and division are exact on small integers\<close>

lemma rne_cases: "rne num den = num div den \<or> (rne num den = num div den + 1 \<and> den \<le> 2 * (num mod den))"
  by (auto simp: rne_def Let_def)

lemma rne_1: "rne n (Suc 0) = n"
  by (simp add: rne_def)

lemma f32_of_nat_exact:
  assumes "n \<le> 2 ^ 24"
  shows "f32_of_nat n = n"
proof (cases "n < 2 ^ 24")
  case True
  then have "floorlog 2 n \<le> 24" by (intro floorlog_leI) simp_all
  then show ?thesis by (simp add: f32_of_nat_def rne_1)
next
  case False
  then have n: "n = 2 ^ 24" using assms by simp
  have "floorlog 2 (1 * 2 ^ 24) = floorlog 2 1 + 24" by (rule floorlog_power) simp_all
  then have "floorlog 2 n = 25" unfolding n by (simp add: floorlog_def)
  then show ?thesis by (simp add: f32_of_nat_def n rne_def)
qed

lemma f32_div_int_exact:
  assumes a: "a < 2 ^ 24" and b: "0 < b" "b < 2 ^ 25"
  shows "f32_div_int a b = a div b"
proof (cases "a < b")
  case True
  then have "a * 2 ^ 25 + 2 ^ 25 \<le> b * 2 ^ 25"
    by (metis Suc_leI add.commute mult_Suc mult_le_mono1)
  then have "\<not> b * (2 ^ 25 - 1) \<le> a * 2 ^ 25" using b by (simp add: algebra_simps)
  then show ?thesis using True by (simp add: f32_div_int_def)
next
  case False
  define q where "q = a div b"
  define e where "e = floorlog 2 q - 1"
  define P :: nat where "P = 2 ^ (23 - e)"
  have q1: "0 < q" using False b by (simp add: q_def div_greater_zero_iff)
  have fb: "2 ^ (floorlog 2 q - 1) \<le> q" using floorlog_bounds [of q 2] q1 by simp
  then have eq: "2 ^ e \<le> q" by (simp add: e_def)
  have "q \<le> a" by (simp add: q_def)
  then have "(2::nat) ^ e < 2 ^ 24" using eq a by linarith
  then have "e < 24" by (rule power_less_imp_less_exp [rotated]) simp
  then have e23: "e \<le> 23" by simp
  have P0: "0 < P" by (simp add: P_def)
  have eP: "2 ^ e * P = (2::nat) ^ 23" using e23 by (simp add: P_def flip: power_add)
  define Q where "Q = a * P div b"
  define R where "R = a * P mod b"
  define r0 where "r0 = a mod b"
  have QP: "Q div P = q" using P0 by (simp add: Q_def q_def div_mult2_eq [symmetric] mult.commute)
  have lo: "q * P \<le> Q" using div_times_less_eq_dividend [of Q P] QP by simp
  have hi: "Q < (q + 1) * P" using dividend_less_div_times [OF P0, of Q] QP by (simp add: algebra_simps)
  have m: "rne (a * P) b = Q \<or> (rne (a * P) b = Q + 1 \<and> b \<le> 2 * R)"
    using rne_cases [of "a * P" b] by (simp add: Q_def R_def)
  have goal: "rne (a * P) b div P = q"
  proof -
    {
      assume up: "rne (a * P) b = Q + 1" "b \<le> 2 * R"
      have "Q + 1 < (q + 1) * P"
      proof (rule ccontr)
        assume "\<not> Q + 1 < (q + 1) * P"
        then have top: "Q + 1 = (q + 1) * P" using hi by simp
        have d1: "a * P = b * Q + R" by (simp add: Q_def R_def)
        have d2: "a = b * q + r0" by (simp add: q_def r0_def)
        have r0b: "r0 < b" using b by (simp add: r0_def)
        have Rb: "R < b" using b by (simp add: R_def)
        have "b * (Q + 1) = b * ((q + 1) * P)" using top by simp
        then have e1: "b * Q + b = b * q * P + b * P" by (simp add: algebra_simps)
        have e2: "b * q * P + r0 * P = b * Q + R" using d1 d2 by (simp add: algebra_simps)
        have "r0 * P + b = b * P + R" using e1 e2 by linarith
        moreover have "r0 * P + P \<le> b * P" using r0b by (metis Suc_leI mult_Suc mult_le_mono1 add.commute)
        ultimately have "P + R \<le> b" by linarith
        then have "2 * P \<le> b" using up(2) by linarith
        then have "2 * P * 2 ^ e \<le> b * q" using eq by (rule mult_le_mono)
        then have "(2::nat) ^ 24 \<le> b * q" using eP by (simp add: algebra_simps)
        then show False using d2 a by linarith
      qed
      then have "(Q + 1) div P = q" using lo
        by (intro div_nat_eqI) (simp_all add: algebra_simps)
    }
    then show ?thesis using m QP by auto
  qed
  show ?thesis
    using False e23 goal unfolding P_def e_def q_def by (simp add: f32_div_int_def Let_def)
qed

lemma div_int_exact:
  assumes "x < 2 ^ 24" "0 < d" "d \<le> 2 ^ 24"
  shows "div_int x d = x div d"
proof -
  have x: "f32_of_nat x = x" using assms(1) by (intro f32_of_nat_exact) simp
  have d: "f32_of_nat d = d" using assms(3) by (rule f32_of_nat_exact)
  have "d < 2 ^ 25" using assms(3) by simp
  then show ?thesis unfolding div_int_def x d using assms(1,2) by (intro f32_div_int_exact)
qed

lemma float_of_exact: "n \<le> 2 ^ 24 \<Longrightarrow> float_of n = real n"
  by (simp add: float_of_def f32_of_nat_exact)

text \<open>
  Beyond \<open>2^24\<close> the truncated single-precision quotient leaves the integer quotient:
  the flat index \<open>16999999\<close> of a map \<open>5000\<close> cells wide is converted to \<open>17000000\<close> and
  gets row \<open>3400\<close> instead of \<open>3399\<close>, and the rank \<open>16999999\<close> among two classes of
  \<open>8500000\<close> candidates each gets class \<open>2\<close>.
\<close>

lemma floorlog_2_eq: "2 ^ (w - 1) \<le> x \<Longrightarrow> x < 2 ^ w \<Longrightarrow> floorlog 2 x = w"
  by (intro le_antisym floorlog_leI floorlog_geI) simp_all

lemma f32_of_nat_16999999: "f32_of_nat 16999999 = 17000000"
proof -
  have "floorlog 2 (16999999::nat) = 25" by (rule floorlog_2_eq) simp_all
  then show ?thesis by (simp add: f32_of_nat_def rne_def)
qed

lemma div_int_row_beyond_map: "div_int 16999999 5000 = 3400 \<and> (16999999::nat) div 5000 = 3399"
proof -
  have a: "f32_of_nat 5000 = 5000" by (rule f32_of_nat_exact) simp
  have f: "floorlog 2 (3400::nat) = 12" by (rule floorlog_2_eq) simp_all
  show ?thesis unfolding div_int_def f32_of_nat_16999999 a by (simp add: f32_div_int_def f rne_def)
qed

lemma div_int_class_beyond_classes:
  "div_int 16999999 8500000 = 2 \<and> (16999999::nat) < 2 * 8500000 \<and> (16999999::nat) div 8500000 = 1"
proof -
  have a: "f32_of_nat 8500000 = 8500000" by (rule f32_of_nat_exact) simp
  have f: "floorlog 2 (2::nat) = 2" by (rule floorlog_2_eq) simp_all
  show ?thesis unfolding div_int_def f32_of_nat_16999999 a by (simp add: f32_div_int_def f rne_def)
qed

section \<open>Properties of the error monad and of shapes\<close>

lemma bindE_Inr [simp]: "bindE (Inr x) f = f x"
  by (simp add: bindE_def)

lemma bindE_Inl [simp]: "bindE (Inl e) f = Inl e"
  by (simp add: bindE_def)

lemma bindE_eq_Inr: "bindE m f = Inr y \<longleftrightarrow> (\<exists>x. m = Inr x \<and> f x = Inr y)"
  by (cases m) simp_all

lemma rect2_nth: "rect2 h w g \<Longrightarrow> i < h \<Longrightarrow> length (g ! i) = w"
  by (auto simp: rect2_def list_all_length)

lemma rect2_length: "rect2 h w g \<Longrightarrow> length g = h"
  by (simp add: rect2_def)

lemma rect3_nth: "rect3 c h w t \<Longrightarrow> ch < c \<Longrightarrow> rect2 h w (t ! ch)"
  by (auto simp: rect3_def list_all_length)

lemma rect3_length: "rect3 c h w t \<Longrightarrow> length t = c"
  by (simp add: rect3_def)

lemma rect4_nth: "rect4 b c h w t \<Longrightarrow> n < b \<Longrightarrow> rect3 c h w (t ! n)"
  by (auto simp: rect4_def list_all_length)

lemma rect4_length: "rect4 b c h w t \<Longrightarrow> length t = b"
  by (simp add: rect4_def)

lemma rect4_grid: "rect4 b c h w t \<Longrightarrow> n < b \<Longrightarrow> ch < c \<Longrightarrow> rect2 h w (t ! n ! ch)"
  by (blast intro: rect3_nth rect4_nth)

section \<open>Peak suppression keeps exactly the window maxima\<close>

lemma max_list_Max: "xs \<noteq> [] \<Longrightarrow> max_list xs = Max (set xs)"
  by (cases xs) (simp_all add: Max.set_eq_fold [symmetric])

lemma set_nbrs: "set (nbrs n i) = {i'. i' < n \<and> i' \<le> i + 1 \<and> i \<le> i' + 1}"
  by (auto simp: nbrs_def)

lemma nbhd_conv:
  "nbhd h w i j =
     {(i', j'). i' < h \<and> j' < w \<and> i' \<le> i + 1 \<and> i \<le> i' + 1 \<and> j' \<le> j + 1 \<and> j \<le> j' + 1}"
  by (auto simp: nbhd_def set_nbrs)

lemma nbhd_self: "i < h \<Longrightarrow> j < w \<Longrightarrow> (i, j) \<in> nbhd h w i j"
  by (simp add: nbhd_conv)

lemma nbhd_bounds: "(i', j') \<in> nbhd h w i j \<Longrightarrow> i' < h \<and> j' < w"
  by (simp add: nbhd_conv)

lemma finite_nbhd: "finite (nbhd h w i j)"
  by (simp add: nbhd_def)

lemma pool_at_Max:
  assumes "rect2 h w g" "i < h" "j < w"
  shows "pool_at g i j = Max ((\<lambda>(i', j'). g ! i' ! j') ` nbhd h w i j)"
proof -
  let ?xs = "concat (map (\<lambda>i'. map (\<lambda>j'. g ! i' ! j') (nbrs (length (g ! i)) j)) (nbrs (length g) i))"
  have len: "length g = h" "length (g ! i) = w"
    using assms by (simp_all add: rect2_length rect2_nth)
  have s: "set ?xs = (\<lambda>(i', j'). g ! i' ! j') ` nbhd h w i j"
    by (auto simp: len set_nbrs nbhd_conv image_iff)
  have "(i, j) \<in> nbhd h w i j" using assms by (simp add: nbhd_self)
  then have "set ?xs \<noteq> {}" unfolding s by blast
  then have "?xs \<noteq> []" by auto
  then have "max_list ?xs = Max (set ?xs)" by (rule max_list_Max)
  then show ?thesis unfolding pool_at_def s .
qed

lemma clamp_index_image:
  assumes "i < n"
  shows "(\<lambda>d. clamp_index n (int i + d)) ` {-1, 0, 1} = {i'. i' < n \<and> i' \<le> i + 1 \<and> i \<le> i' + 1}"
proof -
  have "clamp_index n (int i) = i" using assms by (simp add: clamp_index_def)
  moreover have "clamp_index n (int i + 1) = (if i + 1 < n then i + 1 else i)"
    using assms by (auto simp: clamp_index_def)
  moreover have "clamp_index n (int i + - 1) = (if 0 < i then i - 1 else i)"
    using assms by (auto simp: clamp_index_def)
  ultimately show ?thesis using assms by (auto split: if_splits)
qed

lemma edge_padded_max_Max:
  assumes "rect2 h w g" "i < h" "j < w"
  shows "edge_padded_max g i j = Max ((\<lambda>(i', j'). g ! i' ! j') ` nbhd h w i j)"
proof -
  let ?f = "\<lambda>di dj. g ! clamp_index (length g) (int i + di) ! clamp_index (length (g ! i)) (int j + dj)"
  let ?xs = "concat (map (\<lambda>di. map (\<lambda>dj. ?f di dj) [-1, 0, 1]) [-1, 0, 1])"
  have len: "length g = h" "length (g ! i) = w"
    using assms by (simp_all add: rect2_length rect2_nth)
  have "set ?xs = (\<lambda>(a, b). g ! a ! b) `
      ((\<lambda>d. clamp_index h (int i + d)) ` {-1, 0, 1} \<times> (\<lambda>d. clamp_index w (int j + d)) ` {-1, 0, 1})"
    unfolding len by (simp add: image_Un insert_commute)
  also have "(\<lambda>d. clamp_index h (int i + d)) ` {-1, 0, 1} \<times> (\<lambda>d. clamp_index w (int j + d)) ` {-1, 0, 1}
      = nbhd h w i j"
    unfolding clamp_index_image [OF assms(2)] clamp_index_image [OF assms(3)]
    by (auto simp: nbhd_conv)
  finally have s: "set ?xs = (\<lambda>(i', j'). g ! i' ! j') ` nbhd h w i j" .
  have "?xs \<noteq> []" by simp
  then have "max_list ?xs = Max (set ?xs)" by (rule max_list_Max)
  then show ?thesis unfolding edge_padded_max_def s .
qed

lemma pool_at_edge_padded:
  "rect2 h w g \<Longrightarrow> i < h \<Longrightarrow> j < w \<Longrightarrow> pool_at g i j = edge_padded_max g i j"
  by (simp add: pool_at_Max edge_padded_max_Max)

lemma max_pool2d_length: "length (max_pool2d g) = length g"
  by (simp add: max_pool2d_def)

lemma max_pool2d_row_length: "i < length g \<Longrightarrow> length (max_pool2d g ! i) = length (g ! i)"
  by (simp add: max_pool2d_def)

lemma max_pool2d_nth:
  "i < length g \<Longrightarrow> j < length (g ! i) \<Longrightarrow> max_pool2d g ! i ! j = pool_at g i j"
  by (simp add: max_pool2d_def)

lemma nms2_length: "length (nms2 g) = length g"
  by (simp add: nms2_def max_pool2d_length)

lemma nms2_row_length: "i < length g \<Longrightarrow> length (nms2 g ! i) = length (g ! i)"
  by (simp add: nms2_def max_pool2d_length max_pool2d_row_length)

lemma nms2_nth:
  assumes "i < length g" "j < length (g ! i)"
  shows "nms2 g ! i ! j = (if pool_at g i j = g ! i ! j then g ! i ! j else 0)"
  using assms
  by (simp add: nms2_def max_pool2d_length max_pool2d_row_length max_pool2d_nth)

lemma rect2_nms2: "rect2 h w g \<Longrightarrow> rect2 h w (nms2 g)"
  by (auto simp: rect2_def list_all_length nms2_length nms2_row_length)

lemma rect3_nms2: "rect3 c h w t \<Longrightarrow> rect3 c h w (map nms2 t)"
  by (auto simp: rect3_def list_all_length rect2_nms2)

lemma rect4_nms: "rect4 b c h w heat \<Longrightarrow> rect4 b c h w (nms heat)"
  by (auto simp: rect4_def nms_def list_all_length rect3_nms2)

lemma nms_nth:
  "n < length heat \<Longrightarrow> ch < length (heat ! n) \<Longrightarrow> nms heat ! n ! ch = nms2 (heat ! n ! ch)"
  by (simp add: nms_def)

lemma pool_at_ge_self:
  assumes "rect2 h w g" "i < h" "j < w"
  shows "g ! i ! j \<le> pool_at g i j"
proof -
  have "(i, j) \<in> nbhd h w i j" using assms by (simp add: nbhd_self)
  then have "g ! i ! j \<in> (\<lambda>(i', j'). g ! i' ! j') ` nbhd h w i j" by force
  then show ?thesis
    unfolding pool_at_Max [OF assms] by (intro Max_ge) (simp_all add: finite_nbhd)
qed

lemma pool_at_ge_nbr:
  assumes "rect2 h w g" "i < h" "j < w" "(i', j') \<in> nbhd h w i j"
  shows "g ! i' ! j' \<le> pool_at g i j"
proof -
  have "g ! i' ! j' \<in> (\<lambda>(i', j'). g ! i' ! j') ` nbhd h w i j" using assms(4) by force
  then show ?thesis
    unfolding pool_at_Max [OF assms(1-3)] by (intro Max_ge) (simp_all add: finite_nbhd)
qed

lemma pool_at_attained:
  assumes "rect2 h w g" "i < h" "j < w"
  shows "\<exists>p \<in> nbhd h w i j. pool_at g i j = g ! fst p ! snd p"
proof -
  let ?S = "(\<lambda>(i', j'). g ! i' ! j') ` nbhd h w i j"
  have "(i, j) \<in> nbhd h w i j" using assms by (simp add: nbhd_self)
  then have "?S \<noteq> {}" by blast
  then have "Max ?S \<in> ?S" by (intro Max_in) (simp_all add: finite_nbhd)
  then show ?thesis unfolding pool_at_Max [OF assms] by force
qed

lemma pool_at_mono:
  assumes "rect2 h w g" "rect2 h w g'" "i < h" "j < w"
    and le: "\<And>i' j'. i' < h \<Longrightarrow> j' < w \<Longrightarrow> g' ! i' ! j' \<le> g ! i' ! j'"
  shows "pool_at g' i j \<le> pool_at g i j"
proof -
  obtain p where p: "p \<in> nbhd h w i j" and m: "pool_at g' i j = g' ! fst p ! snd p"
    using pool_at_attained [OF assms(2,3,4)] by blast
  have b: "fst p < h" "snd p < w" using p nbhd_bounds [of "fst p" "snd p"] by simp_all
  have "g' ! fst p ! snd p \<le> g ! fst p ! snd p" using b by (rule le)
  also have "\<dots> \<le> pool_at g i j"
    using assms(1,3,4) p by (intro pool_at_ge_nbr [where h = h and w = w]) simp_all
  finally show ?thesis unfolding m .
qed

lemma nms2_idem:
  assumes r: "rect2 h w g" and nn: "list_all (list_all (\<lambda>v. 0 \<le> v)) g"
  shows "nms2 (nms2 g) = nms2 g"
proof (rule nth_equalityI)
  show "length (nms2 (nms2 g)) = length (nms2 g)" by (simp add: nms2_length)
next
  fix i assume "i < length (nms2 (nms2 g))"
  then have i: "i < h" using r by (simp add: nms2_length rect2_length)
  have r': "rect2 h w (nms2 g)" using r by (rule rect2_nms2)
  have li: "i < length g" "i < length (nms2 g)" using i r by (simp_all add: nms2_length rect2_length)
  show "nms2 (nms2 g) ! i = nms2 g ! i"
  proof (rule nth_equalityI)
    show "length (nms2 (nms2 g) ! i) = length (nms2 g ! i)"
      using li by (simp add: nms2_row_length)
  next
    fix j assume "j < length (nms2 (nms2 g) ! i)"
    then have j: "j < w" using li r r' i by (simp add: nms2_row_length rect2_nth)
    have lj: "j < length (g ! i)" "j < length (nms2 g ! i)"
      using j i r r' by (simp_all add: rect2_nth)
    have pos: "\<And>i' j'. i' < h \<Longrightarrow> j' < w \<Longrightarrow> 0 \<le> g ! i' ! j'"
      using nn r by (auto simp: list_all_length rect2_def)
    have le: "\<And>i' j'. i' < h \<Longrightarrow> j' < w \<Longrightarrow> nms2 g ! i' ! j' \<le> g ! i' ! j'"
      using r pos by (simp add: nms2_nth rect2_length rect2_nth)
    have mono: "pool_at (nms2 g) i j \<le> pool_at g i j"
      using r r' i j le by (rule pool_at_mono [where h = h and w = w])
    have ge: "nms2 g ! i ! j \<le> pool_at (nms2 g) i j"
      using r' i j by (rule pool_at_ge_self)
    have v: "nms2 g ! i ! j = (if pool_at g i j = g ! i ! j then g ! i ! j else 0)"
      using li lj by (simp add: nms2_nth)
    have "nms2 (nms2 g) ! i ! j =
        (if pool_at (nms2 g) i j = nms2 g ! i ! j then nms2 g ! i ! j else 0)"
      using li lj by (simp add: nms2_nth)
    also have "\<dots> = nms2 g ! i ! j"
      using v mono ge by (auto split: if_splits)
    finally show "nms2 (nms2 g) ! i ! j = nms2 g ! i ! j" .
  qed
qed

lemmas nms_eval = nms_def nms2_def max_pool2d_def pool_at_def nbrs_def

text \<open>
  Claim C6, as amended. Peak suppression returns a heatmap of the same shape in which a
  cell keeps its value exactly when that value equals the maximum of its \<open>3\<times>3\<close>
  edge-padded neighbourhood, and is \<open>0\<close> otherwise; ties on a plateau all survive since
  the test is an equality. A strict local maximum keeps its value and a cell with a
  larger neighbour becomes \<open>0\<close>. The output is below the input at every cell whose input
  is not negative; at a suppressed negative cell the output \<open>0\<close> lies above the input.
\<close>

theorem nms_keeps_window_maxima:
  assumes "rect4 b c h w heat" "n < b" "ch < c" "i < h" "j < w"
  shows "rect4 b c h w (nms heat)
    \<and> nms heat ! n ! ch ! i ! j =
        (if heat ! n ! ch ! i ! j = edge_padded_max (heat ! n ! ch) i j
         then heat ! n ! ch ! i ! j else 0)
    \<and> edge_padded_max (heat ! n ! ch) i j =
        Max ((\<lambda>(i', j'). heat ! n ! ch ! i' ! j') ` nbhd h w i j)
    \<and> (0 \<le> heat ! n ! ch ! i ! j \<longrightarrow> nms heat ! n ! ch ! i ! j \<le> heat ! n ! ch ! i ! j)
    \<and> ((\<forall>p \<in> nbhd h w i j - {(i, j)}. heat ! n ! ch ! fst p ! snd p < heat ! n ! ch ! i ! j)
          \<longrightarrow> nms heat ! n ! ch ! i ! j = heat ! n ! ch ! i ! j)
    \<and> ((\<exists>p \<in> nbhd h w i j. heat ! n ! ch ! i ! j < heat ! n ! ch ! fst p ! snd p)
          \<longrightarrow> nms heat ! n ! ch ! i ! j = 0)"
proof -
  let ?g = "heat ! n ! ch"
  have r: "rect2 h w ?g" using assms(1-3) by (rule rect4_grid)
  have ln: "n < length heat" "ch < length (heat ! n)"
    using assms(1-3) rect3_length [OF rect4_nth [OF assms(1,2)]]
    by (simp_all add: rect4_length)
  have lg: "i < length ?g" "j < length (?g ! i)"
    using r assms(4,5) by (simp_all add: rect2_length rect2_nth)
  have pe: "pool_at ?g i j = edge_padded_max ?g i j"
    using r assms(4,5) by (rule pool_at_edge_padded)
  have val: "nms heat ! n ! ch ! i ! j = (if ?g ! i ! j = edge_padded_max ?g i j then ?g ! i ! j else 0)"
    using ln lg by (auto simp: nms_nth nms2_nth pe)
  have mx: "edge_padded_max ?g i j = Max ((\<lambda>(i', j'). ?g ! i' ! j') ` nbhd h w i j)"
    using r assms(4,5) by (rule edge_padded_max_Max)
  have up: "\<And>p. p \<in> nbhd h w i j \<Longrightarrow> ?g ! fst p ! snd p \<le> edge_padded_max ?g i j"
    using pool_at_ge_nbr [OF r assms(4,5)] pe by (metis prod.collapse)
  obtain q where q: "q \<in> nbhd h w i j" "edge_padded_max ?g i j = ?g ! fst q ! snd q"
    using pool_at_attained [OF r assms(4,5)] pe by auto
  have strict: "(\<forall>p \<in> nbhd h w i j - {(i, j)}. ?g ! fst p ! snd p < ?g ! i ! j)
      \<longrightarrow> nms heat ! n ! ch ! i ! j = ?g ! i ! j"
  proof
    assume a: "\<forall>p \<in> nbhd h w i j - {(i, j)}. ?g ! fst p ! snd p < ?g ! i ! j"
    have "q = (i, j)"
    proof (rule ccontr)
      assume "q \<noteq> (i, j)"
      then have "?g ! fst q ! snd q < ?g ! i ! j" using a q(1) by blast
      moreover have "?g ! i ! j \<le> edge_padded_max ?g i j"
        using up [of "(i, j)"] assms(4,5) by (simp add: nbhd_self)
      ultimately show False using q(2) by simp
    qed
    then show "nms heat ! n ! ch ! i ! j = ?g ! i ! j" using val q(2) by simp
  qed
  have nonmax: "(\<exists>p \<in> nbhd h w i j. ?g ! i ! j < ?g ! fst p ! snd p)
      \<longrightarrow> nms heat ! n ! ch ! i ! j = 0"
  proof
    assume "\<exists>p \<in> nbhd h w i j. ?g ! i ! j < ?g ! fst p ! snd p"
    then obtain p where "p \<in> nbhd h w i j" "?g ! i ! j < ?g ! fst p ! snd p" by blast
    then have "?g ! i ! j < edge_padded_max ?g i j" using up [of p] by simp
    then show "nms heat ! n ! ch ! i ! j = 0" using val by simp
  qed
  have le: "0 \<le> ?g ! i ! j \<longrightarrow> nms heat ! n ! ch ! i ! j \<le> ?g ! i ! j"
    using val by simp
  show ?thesis
    using rect4_nms [OF assms(1)] val mx le strict nonmax by blast
qed

theorem nms_keeps_window_maxima_witness:
  "rect4 1 1 2 2 (nms [[[[1, 2], [3, 0]]]])
   \<and> nms [[[[1, 2], [3, 0]]]] ! 0 ! 0 ! 1 ! 0 = 3
   \<and> nms [[[[1, 2], [3, 0]]]] ! 0 ! 0 ! 0 ! 1 = 0"
proof -
  let ?heat = "[[[[1, 2], [3, 0]]]] :: tensor4"
  have r: "rect4 1 1 2 2 ?heat" by (simp add: rect4_def rect3_def rect2_def)
  have nb1: "nbhd 2 2 1 0 = {(0, 0), (0, 1), (1, 0), (1, 1)}"
    by (auto simp: nbhd_conv)
  have nb2: "nbhd 2 2 0 1 = {(0, 0), (0, 1), (1, 0), (1, 1)}"
    by (auto simp: nbhd_conv)
  have s: "\<forall>p \<in> nbhd 2 2 1 0 - {(1, 0)}. ?heat ! 0 ! 0 ! fst p ! snd p < ?heat ! 0 ! 0 ! 1 ! 0"
    unfolding nb1 by auto
  have e: "\<exists>p \<in> nbhd 2 2 0 1. ?heat ! 0 ! 0 ! 0 ! 1 < ?heat ! 0 ! 0 ! fst p ! snd p"
    unfolding nb2 by auto
  have t1: "n < 1 \<Longrightarrow> ch < 1 \<Longrightarrow> i < 2 \<Longrightarrow> j < 2 \<Longrightarrow> rect4 1 1 2 2 (nms ?heat)
    \<and> nms ?heat ! n ! ch ! i ! j =
        (if ?heat ! n ! ch ! i ! j = edge_padded_max (?heat ! n ! ch) i j
         then ?heat ! n ! ch ! i ! j else 0)
    \<and> edge_padded_max (?heat ! n ! ch) i j =
        Max ((\<lambda>(i', j'). ?heat ! n ! ch ! i' ! j') ` nbhd 2 2 i j)
    \<and> (0 \<le> ?heat ! n ! ch ! i ! j \<longrightarrow> nms ?heat ! n ! ch ! i ! j \<le> ?heat ! n ! ch ! i ! j)
    \<and> ((\<forall>p \<in> nbhd 2 2 i j - {(i, j)}. ?heat ! n ! ch ! fst p ! snd p < ?heat ! n ! ch ! i ! j)
          \<longrightarrow> nms ?heat ! n ! ch ! i ! j = ?heat ! n ! ch ! i ! j)
    \<and> ((\<exists>p \<in> nbhd 2 2 i j. ?heat ! n ! ch ! i ! j < ?heat ! n ! ch ! fst p ! snd p)
          \<longrightarrow> nms ?heat ! n ! ch ! i ! j = 0)" for n ch i j
    by (rule nms_keeps_window_maxima [OF r])
  have lt: "(0::nat) < 1" "(1::nat) < 2" "(0::nat) < 2" by simp_all
  have a: "nms ?heat ! 0 ! 0 ! 1 ! 0 = ?heat ! 0 ! 0 ! 1 ! 0"
    using t1 [OF lt(1) lt(1) lt(2) lt(3)] s by blast
  have b: "nms ?heat ! 0 ! 0 ! 0 ! 1 = 0"
    using t1 [OF lt(1) lt(1) lt(3) lt(2)] e by blast
  have c: "rect4 1 1 2 2 (nms ?heat)"
    using t1 [OF lt(1) lt(1) lt(3) lt(3)] by blast
  show ?thesis using a b c by simp
qed

text \<open>
  Claim C6 as stated fails on a map with a negative entry: the cell holding \<open>-1\<close> next to a
  cell holding \<open>0\<close> is suppressed to \<open>0\<close>, which is above its input.
\<close>

theorem nms_output_above_input:
  "rect4 1 1 1 2 [[[[-1, 0 :: real]]]]
   \<and> \<not> nms [[[[-1, 0]]]] ! 0 ! 0 ! 0 ! 0 \<le> [[[[-1, 0 :: real]]]] ! 0 ! 0 ! 0 ! 0"
  by (simp add: rect4_def rect3_def rect2_def nms_eval)

text \<open>
  Claim C10. On a heatmap without negative entries, suppressing twice gives the same
  array as suppressing once.
\<close>

theorem nms_idempotent:
  assumes "rect4 b c h w heat" "nonneg4 heat"
  shows "nms (nms heat) = nms heat"
proof -
  have "\<And>t g. t \<in> set heat \<Longrightarrow> g \<in> set t \<Longrightarrow> nms2 (nms2 g) = nms2 g"
  proof -
    fix t g assume t: "t \<in> set heat" and g: "g \<in> set t"
    have "rect3 c h w t" using assms(1) t by (auto simp: rect4_def list_all_iff)
    then have r: "rect2 h w g" using g by (auto simp: rect3_def list_all_iff)
    have "list_all (list_all (\<lambda>v. 0 \<le> v)) g"
      using assms(2) t g by (auto simp: nonneg4_def list_all_iff)
    with r show "nms2 (nms2 g) = nms2 g" by (rule nms2_idem)
  qed
  then show ?thesis by (simp add: nms_def)
qed

theorem nms_idempotent_witness:
  "nms (nms [[[[1, 2], [3, 0]]]]) = nms [[[[1, 2], [3, 0]]]]
   \<and> nms [[[[1, 2], [3, 0]]]] = [[[[0, 0], [3, 0]]]]"
proof -
  let ?heat = "[[[[1, 2], [3, 0]]]] :: tensor4"
  have r: "rect4 1 1 2 2 ?heat" by (simp add: rect4_def rect3_def rect2_def)
  have p: "nonneg4 ?heat" by (simp add: nonneg4_def)
  have v: "nms ?heat = [[[[0, 0], [3, 0]]]]" by (simp add: nms_eval)
  show ?thesis using nms_idempotent [OF r p] v by simp
qed

section \<open>Properties of top-K selection and gathering\<close>


lemma mapE_Inr_length: "mapE f xs = Inr ys \<Longrightarrow> length ys = length xs"
  by (induction xs arbitrary: ys) (auto simp: bindE_eq_Inr)

lemma mapE_Inr_nth: "mapE f xs = Inr ys \<Longrightarrow> i < length xs \<Longrightarrow> f (xs ! i) = Inr (ys ! i)"
proof (induction xs arbitrary: ys i)
  case Nil
  then show ?case by simp
next
  case (Cons x xs)
  then obtain y ys' where y: "f x = Inr y" "mapE f xs = Inr ys'" "ys = y # ys'"
    by (auto simp: bindE_eq_Inr)
  show ?case using Cons.IH [OF y(2)] Cons.prems(2) y by (cases i) simp_all
qed



lemma topk_Inl: "length xs < k \<Longrightarrow> topk xs k = Inl RuntimeError"
  by (simp add: topk_def)










lemma view_merge_permute_0231:
  "view_merge (permute_axes [0, 2, 3, 1] [b, c, h, w])
              (permute_axes [0, 2, 3, 1] (contiguous_strides [b, c, h, w])) 1 3"
  by (simp add: view_merge_def permute_axes_def)

lemma permute_and_gather_feat_eq:
  "permute_and_gather_feat feat ind = gather_feat (permute_view feat) ind"
  by (simp add: permute_and_gather_feat_def view_merge_def permute_axes_def split: prod.splits)


lemmas topk_eval = topk_global_def topk_channel_def topk_def gather_feat_def size4_def
  div_int_exact float_of_exact







section \<open>The decoder and the back-projection raise\<close>

lemma bindE_const_error: "(\<And>e. m = Inl e \<Longrightarrow> e = err) \<Longrightarrow> (\<And>x. f x = Inl err) \<Longrightarrow> bindE m f = Inl err"
  by (cases m) simp_all

lemma expand_axis_error: "expand_axis n xs = Inl e \<Longrightarrow> e = RuntimeError"
  by (simp add: expand_axis_def split: if_splits)

lemma mapE_error: "(\<And>x e. f x = Inl e \<Longrightarrow> e = err) \<Longrightarrow> mapE f xs = Inl e \<Longrightarrow> e = err"
  by (induction xs arbitrary: e) (auto simp: bindE_def split: sum.splits)

lemma view_merge_line_172:
  assumes "0 < batch" "0 < boxes"
  shows "\<not> view_merge (permute_axes [0, 1, 3, 2] [batch, boxes, 2, 9])
                      (permute_axes [0, 1, 3, 2] (contiguous_strides [batch, boxes, 2, 9])) 2 4"
  using assms by (simp add: view_merge_def permute_axes_def)

lemma kps_to_image_raises:
  assumes "kps \<noteq> []" "hd kps \<noteq> []"
  shows "kps_to_image kps out_inv = Inl RuntimeError"
proof -
  have v: "\<not> view_merge (permute_axes [0, 1, 3, 2] [length kps, length (hd kps), 2, 9])
      (permute_axes [0, 1, 3, 2] (contiguous_strides [length kps, length (hd kps), 2, 9])) 2 4"
    using assms by (intro view_merge_line_172) simp_all
  show ?thesis
    unfolding kps_to_image_def Let_def
    apply (rule bindE_const_error)
     apply (erule expand_axis_error)
    apply (rule bindE_const_error)
     apply (erule mapE_error [rotated])
     apply (erule mapE_error [rotated])
     apply (simp split: if_splits)
    apply (rule bindE_const_error)
     apply (erule mapE_error [rotated])
     apply (erule mapE_error [rotated])
     apply (simp split: if_splits)
    using v apply simp
    done
qed

lemma transform_img2cam_raises:
  assumes "m ''trans_output_inv'' = Some t" "m ''calib'' = Some c" "kps \<noteq> []" "hd kps \<noteq> []"
  shows "transform_img2cam kps dims rot m const = Inl RuntimeError"
  using assms by (simp add: transform_img2cam_def lookup_def kps_to_image_raises)


lemma int_sizes_tensor: "int_sizes (TensorArg t # args) = Inl TypeError"
  by (simp add: int_sizes_def)

lemma expand4_tensor: "expand4 x (TensorArg t # args) = Inl TypeError"
  by (simp add: expand4_def int_sizes_tensor)

lemma bindE_Inl_I: "(\<And>x. \<exists>e. f x = Inl e) \<Longrightarrow> \<exists>e. bindE m f = Inl e"
  by (cases m) simp_all

lemma Inl_case_prod: "(\<And>a b. \<exists>e. f a b = Inl e) \<Longrightarrow> \<exists>e. case_prod f p = Inl e"
  by (cases p) simp

lemma Inl_if:
  "(c \<Longrightarrow> \<exists>e. x = Inl e) \<Longrightarrow> (\<not> c \<Longrightarrow> \<exists>e. y = Inl e) \<Longrightarrow> \<exists>e. (if c then x else y) = Inl e"
  by simp

lemma Inl_refl: "\<exists>e. Inl err = (Inl e :: error + 'a)"
  by simp

lemma bindE_expand4_tensor: "\<exists>e. bindE (expand4 x (TensorArg t # args)) f = Inl e"
  by (simp add: expand4_tensor)

lemma refine_keypoints_raises:
  "\<exists>e. refine_keypoints kps_heatmap kps_offsets kps bboxes batch num_joints K = Inl e"
  unfolding refine_keypoints_def Let_def
  by ((rule bindE_expand4_tensor | rule Inl_refl | rule bindE_Inl_I | rule Inl_case_prod
        | rule Inl_if)+)

lemma bindE_refine_keypoints:
  "\<exists>e. bindE (bindE (refine_keypoints kps_heatmap kps_offsets kps bboxes batch num_joints K) g) f
        = Inl e"
proof -
  obtain e where "refine_keypoints kps_heatmap kps_offsets kps bboxes batch num_joints K = Inl e"
    using refine_keypoints_raises by blast
  then show ?thesis by simp
qed

lemma decode_with_heatmap_Inl:
  "\<exists>e. object_pose_decode heat wh kps dims rot prob reg (Some kps_heatmap) kps_offsets K m const
        = Inl e"
  unfolding object_pose_decode_def Let_def option.case
  by ((rule bindE_refine_keypoints | rule bindE_Inl_I | rule Inl_case_prod)+)

lemma bindE_unbound_hm_score:
  "\<exists>e. bindE (Inr (kps, None))
          (\<lambda>(kps, hm_score). bindE (t kps)
             (\<lambda>(position, rot_y, kps_inv).
                case hm_score of None \<Rightarrow> Inl UnboundLocalError
                | Some hm_score \<Rightarrow> Inr (r position rot_y kps_inv hm_score))) = Inl e"
  by (cases "t kps") (simp_all split: prod.splits)

lemma decode_without_heatmap_Inl:
  "\<exists>e. object_pose_decode heat wh kps dims rot prob reg None kps_offsets K m const = Inl e"
  unfolding object_pose_decode_def Let_def option.case
  by ((rule bindE_unbound_hm_score | rule bindE_Inl_I | rule Inl_case_prod)+)


lemma refine_keypoints_TypeError:
  assumes "topk_channel (nms kps_heatmap) K = Inr (hm_score, hm_inds, hm_ys, hm_xs)"
    and "list_all (\<lambda>sb. length sb = num_joints) hm_score"
    and "0 < K"
  shows "refine_keypoints kps_heatmap None kps bboxes batch num_joints K = Inl TypeError"
proof -
  have c: "list_all (\<lambda>sb. length sb = num_joints \<or> length sb = 1) hm_score"
    "list_all (\<lambda>sb. num_joints \<le> length sb) (map (map (map masked_score)) hm_score)"
    using assms(2) by (simp_all add: list_all_iff)
  show ?thesis
    unfolding refine_keypoints_def Let_def assms(1)
    using c assms(3) by (simp add: expand4_tensor)
qed

lemma e_nms: "nms heat0 = heat0" "nms kps_heatmap0 = kps_heatmap0"
  by (simp_all add: heat0_def kps_heatmap0_def nms_eval)

lemma e_topk: "topk_global heat0 1 = Inr ([[9/10]], [[0]], [[0]], [[0]], [[0]])"
  by (simp add: heat0_def topk_eval Let_def)

lemma e_topk_channel: "topk_channel kps_heatmap0 1 =
    Inr ([[[1], [1], [1], [1], [1], [1], [1], [1], [1]]],
         [[[0], [0], [0], [0], [0], [0], [0], [0], [0]]],
         [[[0], [0], [0], [0], [0], [0], [0], [0], [0]]],
         [[[0], [0], [0], [0], [0], [0], [0], [0], [0]]])"
  by (simp add: kps_heatmap0_def topk_channel_def topk_def size4_def div_int_exact float_of_exact)

lemma e_topk_channel_nms: "topk_channel (nms kps_heatmap0) 1 =
    Inr ([[[1], [1], [1], [1], [1], [1], [1], [1], [1]]],
         [[[0], [0], [0], [0], [0], [0], [0], [0], [0]]],
         [[[0], [0], [0], [0], [0], [0], [0], [0], [0]]],
         [[[0], [0], [0], [0], [0], [0], [0], [0], [0]]])"
  unfolding e_nms by (rule e_topk_channel)

lemma e_refine: "refine_keypoints kps_heatmap0 None kps bboxes batch 9 1 = Inl TypeError"
  by (rule refine_keypoints_TypeError [OF e_topk_channel_nms]) simp_all

lemma e_refine_Suc: "refine_keypoints kps_heatmap0 None kps bboxes batch 9 (Suc 0) = Inl TypeError"
  using e_refine [of kps bboxes batch] by simp

lemmas gather_eval = permute_and_gather_feat_eq permute_view_def gather_feat_def view_last_def

lemma e_gather:
  "permute_and_gather_feat kps0 [[0]] =
     Inr [[[1/2, 1/2, 1/2, 1/2, 1/2, 1/2, 1/2, 1/2, 1/2, 1/2, 1/2, 1/2, 1/2, 1/2, 1/2, 1/2, 1/2, 1/2]]]"
  "permute_and_gather_feat wh0 [[0]] = Inr [[[2, 2]]]"
  "permute_and_gather_feat dims0 [[0]] = Inr [[[1, 1, 1]]]"
  "permute_and_gather_feat rot0 [[0]] = Inr [[[1, 1, 1, 1, 1, 1, 1, 1]]]"
  "permute_and_gather_feat prob0 [[0]] = Inr [[[1/2]]]"
  by (simp_all add: kps0_def wh0_def dims0_def rot0_def prob0_def gather_eval)

lemma e_decode_heatmap:
  "object_pose_decode heat0 wh0 kps0 dims0 rot0 (Some prob0) None (Some kps_heatmap0) None 1 m const
     = Inl TypeError"
proof -
  have s: "size4 heat0 = (1, 1, 1, 1)" by (simp add: size4_def heat0_def)
  have j: "length (hd kps0) div 2 = 9" by (simp add: kps0_def)
  show ?thesis
    unfolding object_pose_decode_def s j Let_def e_nms e_topk prod.case bindE_Inr e_gather
      option.case
    by (simp add: view_last_def e_refine_Suc)
qed


lemma e_lookup: "lookup meta0 ''trans_output_inv'' = Inr [[[1, 0, 0], [0, 1, 0]]]"
  "lookup meta0 ''calib'' = Inr [[[1, 0, 0, 0], [0, 1, 0, 0], [0, 0, 1, 0]]]"
  by (simp_all add: lookup_def meta0_def)


lemma e_decode_no_heatmap:
  "object_pose_decode heat0 wh0 kps0 dims0 rot0 (Some prob0) None None None 1 (Some meta0) const
     = Inl RuntimeError"
proof -
  have s: "size4 heat0 = (1, 1, 1, 1)" by (simp add: size4_def heat0_def)
  have j: "length (hd kps0) div 2 = 9" by (simp add: kps0_def)
  have t: "\<And>kps dims rot. kps \<noteq> [] \<Longrightarrow> hd kps \<noteq> [] \<Longrightarrow>
      transform_img2cam kps dims rot meta0 const = Inl RuntimeError"
    by (rule transform_img2cam_raises [where t = "[[[1, 0, 0], [0, 1, 0]]]"
        and c = "[[[1, 0, 0, 0], [0, 1, 0, 0], [0, 0, 1, 0]]]"])
       (simp_all add: meta0_def)
  show ?thesis
    unfolding object_pose_decode_def s j Let_def e_nms e_topk prod.case bindE_Inr e_gather
      option.case
    by (simp add: view_last_def t)
qed

lemma refine_keypoints_offsets_TypeError:
  assumes "topk_channel (nms kps_heatmap) K = Inr (hm_score, hm_inds, hm_ys, hm_xs)"
    and "list_all (\<lambda>sb. length sb = num_joints) hm_score"
    and "0 < K"
    and "permute_and_gather_feat kps_offsets (map concat hm_inds) = Inr off"
    and "list_all (list_all (\<lambda>row. length row = 2)) off"
    and "list_all (\<lambda>ob. length ob = num_joints * K) off"
  shows "refine_keypoints kps_heatmap (Some kps_offsets) kps bboxes batch num_joints K
           = Inl TypeError"
proof -
  have c: "list_all (\<lambda>sb. length sb = num_joints \<or> length sb = 1) hm_score"
    "list_all (\<lambda>sb. num_joints \<le> length sb) (map (map (map masked_score)) hm_score)"
    using assms(2) by (simp_all add: list_all_iff)
  have v: "view_last 2 off = Inr off" using assms(5) by (simp add: view_last_def)
  show ?thesis
    unfolding refine_keypoints_def Let_def assms(1)
    using c assms(3,6) by (simp add: assms(4) v expand4_tensor)
qed

lemma e_gather_offsets:
  "permute_and_gather_feat reg0 [[0]] = Inr [[[1/2, 1/2]]]"
  "permute_and_gather_feat kps_offsets0 [[0, 0, 0, 0, 0, 0, 0, 0, 0]] =
     Inr [[[1/2, 1/2], [1/2, 1/2], [1/2, 1/2], [1/2, 1/2], [1/2, 1/2], [1/2, 1/2], [1/2, 1/2],
           [1/2, 1/2], [1/2, 1/2]]]"
  by (simp_all add: reg0_def kps_offsets0_def gather_eval)

lemma e_refine_offsets:
  "refine_keypoints kps_heatmap0 (Some kps_offsets0) kps bboxes batch 9 (Suc 0) = Inl TypeError"
proof -
  have g: "permute_and_gather_feat kps_offsets0
             (map concat [[[0], [0], [0], [0], [0], [0], [0], [0], [0]]]) =
     Inr [[[1/2, 1/2], [1/2, 1/2], [1/2, 1/2], [1/2, 1/2], [1/2, 1/2], [1/2, 1/2], [1/2, 1/2],
           [1/2, 1/2], [1/2, 1/2]]]"
    by (simp add: e_gather_offsets)
  have "refine_keypoints kps_heatmap0 (Some kps_offsets0) kps bboxes batch 9 1 = Inl TypeError"
    by (rule refine_keypoints_offsets_TypeError [OF e_topk_channel_nms _ _ g]) simp_all
  then show ?thesis by simp
qed

lemma e_decode_offsets:
  "object_pose_decode heat0 wh0 kps0 dims0 rot0 (Some prob0) (Some reg0) (Some kps_heatmap0)
       (Some kps_offsets0) 1 m const = Inl TypeError"
proof -
  have s: "size4 heat0 = (1, 1, 1, 1)" by (simp add: size4_def heat0_def)
  have j: "length (hd kps0) div 2 = 9" by (simp add: kps0_def)
  show ?thesis
    unfolding object_pose_decode_def s j Let_def e_nms e_topk prod.case bindE_Inr e_gather
      e_gather_offsets option.case
    by (simp add: view_last_def e_refine_offsets)
qed


section \<open>The inverse used by the position solver\<close>

text \<open>
  The model of \<^verbatim>\<open>torch.inverse\<close> returns a left inverse of every \<open>3\<times>3\<close> matrix whose
  determinant is not zero.
\<close>

lemma mat_mul_3_3:
  "mat_mul [[p1, p2, p3], [p4, p5, p6], [p7, p8, p9]] [[a, b, c], [d, e, f], [g, h, i]] =
     [[p1 * a + p2 * d + p3 * g, p1 * b + p2 * e + p3 * h, p1 * c + p2 * f + p3 * i],
      [p4 * a + p5 * d + p6 * g, p4 * b + p5 * e + p6 * h, p4 * c + p5 * f + p6 * i],
      [p7 * a + p8 * d + p9 * g, p7 * b + p8 * e + p9 * h, p7 * c + p8 * f + p9 * i :: real]]"
proof -
  have t: "transpose [[a, b, c], [d, e, f], [g, h, i]] = [[a, d, g], [b, e, h], [c, f, i]]"
    by (simp add: transpose.simps)
  show ?thesis unfolding mat_mul_def t by simp
qed

lemma inverse3_left_inverse:
  assumes "det3 [[a, b, c], [d, e, f], [g, h, i]] \<noteq> 0"
  shows "\<exists>mi. inverse3 [[a, b, c], [d, e, f], [g, h, i]] = Inr mi
           \<and> mat_mul mi [[a, b, c], [d, e, f], [g, h, i]] = [[1, 0, 0], [0, 1, 0], [0, 0, 1]]"
proof -
  define D where "D = det3 [[a, b, c], [d, e, f], [g, h, i]]"
  have D: "D \<noteq> 0" using assms by (simp add: D_def)
  have Dv: "D = a * (e * i - f * h) - b * (d * i - f * g) + c * (d * h - e * g)"
    by (simp add: D_def det3_def)
  have one: "\<And>x y z u v w. x * u + y * v + z * w = D \<Longrightarrow> x / D * u + y / D * v + z / D * w = 1"
    using D by (simp add: add_divide_distrib [symmetric])
  have zero: "\<And>x y z u v w. x * u + y * v + z * w = 0 \<Longrightarrow> x / D * u + y / D * v + z / D * w = 0"
    using D by (simp add: add_divide_distrib [symmetric])
  have inv: "inverse3 [[a, b, c], [d, e, f], [g, h, i]] =
      Inr [[(e * i - f * h) / D, (c * h - b * i) / D, (b * f - c * e) / D],
           [(f * g - d * i) / D, (a * i - c * g) / D, (c * d - a * f) / D],
           [(d * h - e * g) / D, (b * g - a * h) / D, (a * e - b * d) / D]]"
    using D by (simp add: inverse3_def D_def [symmetric])
  have mm: "mat_mul [[(e * i - f * h) / D, (c * h - b * i) / D, (b * f - c * e) / D],
           [(f * g - d * i) / D, (a * i - c * g) / D, (c * d - a * f) / D],
           [(d * h - e * g) / D, (b * g - a * h) / D, (a * e - b * d) / D]]
         [[a, b, c], [d, e, f], [g, h, i]] = [[1, 0, 0], [0, 1, 0], [0, 0, 1]]"
    unfolding mat_mul_3_3 list.inject
    by (intro conjI one zero refl) (simp_all add: Dv algebra_simps)
  show ?thesis using inv mm by simp
qed


section \<open>The decoder and the back-projection on the example inputs\<close>

text \<open>
  Claim C1 asks for a detection array of shape \<open>[batch, K, 28]\<close> on every valid input of
  the keypoint-heatmap path. On the example input with every optional array given, the
  decoder raises \<^verbatim>\<open>TypeError\<close> at line 403 and returns no array; with a keypoint heatmap
  it returns no array on any input.
\<close>

theorem object_pose_decode_returns_no_array:
  "object_pose_decode heat0 wh0 kps0 dims0 rot0 (Some prob0) (Some reg0) (Some kps_heatmap0)
       (Some kps_offsets0) 1 (Some meta0) (Some const0) = Inl TypeError
   \<and> object_pose_decode heat wh kps dims rot prob reg (Some kps_heatmap) kps_offsets K m const
       \<noteq> Inr detections"
proof -
  obtain e where "object_pose_decode heat wh kps dims rot prob reg (Some kps_heatmap)
      kps_offsets K m const = Inl e"
    using decode_with_heatmap_Inl by blast
  then show ?thesis using e_decode_offsets by simp
qed

text \<open>
  Claim C2 asks for the position of every object. \<^verbatim>\<open>transform_img2cam\<close> raises on two
  objects of one image: line 172 views a permuted tensor without making it contiguous.
\<close>

theorem transform_img2cam_two_objects_raises:
  "transform_img2cam kps_two dims_two rot_two meta0 (Some const0) = Inl RuntimeError"
  by (rule transform_img2cam_raises [where t = "[[[1, 0, 0], [0, 1, 0]]]"
        and c = "[[[1, 0, 0, 0], [0, 1, 0, 0], [0, 0, 1, 0]]]"])
     (simp_all add: meta0_def kps_two_def)

text \<open>
  Claim C3 asks that a heatmap candidate strictly inside the box, with score \<open>1\<close> and at
  distance \<open>0\<close>, replaces the regression estimate. On the example input the candidate of
  every channel is matched with score \<open>1\<close> at distance \<open>0\<close>, the six comparisons of the
  acceptance test are all false, and the decoder raises before any estimate is replaced.
  With a keypoint heatmap the decoder raises on every input.
\<close>

theorem perfect_candidate_accepted_but_decode_raises:
  "match_nearest [1/2, 1/2] [[masked_coord 1 (0 + 0.5), masked_coord 1 (0 + 0.5)]]
       [masked_score 1] = (1, 0, [1/2, 1/2])
   \<and> reject [- (1/2), - (1/2), 3/2, 3/2] [1/2, 1/2] 1 0 = 0
   \<and> object_pose_decode heat0 wh0 kps0 dims0 rot0 (Some prob0) None (Some kps_heatmap0) None 1
         (Some meta0) (Some const0) = Inl TypeError
   \<and> (\<exists>e. object_pose_decode heat wh kps dims rot prob reg (Some kps_heatmap) kps_offsets K
              m const = Inl e)"
proof -
  have a: "match_nearest [1/2, 1/2] [[masked_coord 1 (0 + 0.5), masked_coord 1 (0 + 0.5)]]
       [masked_score 1] = (1, 0, [1/2, 1/2])"
    by (simp add: match_nearest_def dist_row_def min_ind_of_def masked_coord_def masked_score_def
        score_mask_def thresh_def)
  have b: "reject [- (1/2), - (1/2), 3/2, 3/2] [1/2, 1/2] 1 0 = 0"
    by (simp add: reject_def thresh_def)
  show ?thesis using a b e_decode_heatmap decode_with_heatmap_Inl by blast
qed

text \<open>
  Claim C4 asks that the decoder returns when the optional arrays are absent. Without a
  keypoint heatmap it never returns: the variable \<^verbatim>\<open>hm_score\<close> read at line 410 is assigned
  only on the keypoint-heatmap path, and \<^verbatim>\<open>transform_img2cam\<close> raises before that line is
  reached, as on the example input.
\<close>

theorem object_pose_decode_raises_without_keypoint_heatmap:
  "(\<exists>e. object_pose_decode heat wh kps dims rot prob reg None kps_offsets K m const = Inl e)
   \<and> object_pose_decode heat0 wh0 kps0 dims0 rot0 (Some prob0) None None None 1
         (Some meta0) (Some const0) = Inl RuntimeError"
  using decode_without_heatmap_Inl e_decode_no_heatmap by blast

text \<open>
  Claim C5 asks for the yaw of every object. For the one object of the example the
  claim gives \<open>-\<pi>/4 + \<pi>/4 = 0\<close>; \<^verbatim>\<open>transform_img2cam\<close> raises at line 172, before the
  yaw block of lines 174 to 189 is reached, and returns no yaw.
\<close>

theorem transform_img2cam_returns_no_yaw:
  "transform_img2cam kps_one dims_one rot_one meta0 (Some const0) = Inl RuntimeError"
  by (rule transform_img2cam_raises [where t = "[[[1, 0, 0], [0, 1, 0]]]"
        and c = "[[[1, 0, 0, 0], [0, 1, 0, 0], [0, 0, 1, 0]]]"])
     (simp_all add: meta0_def kps_one_def)

section \<open>The yaw block, lines 174 to 189\<close>

lemma atan2_bounds: "- pi \<le> atan2 y x \<and> atan2 y x \<le> pi"
proof -
  have b: "- (pi / 2) < arctan (y / x)" "arctan (y / x) < pi / 2"
    by (rule arctan_lbound, rule arctan_ubound)
  have p: "0 < pi" by simp
  consider "0 < x" | "x < 0" "0 \<le> y" | "x < 0" "y < 0" | "x = 0"
    by linarith
  then show ?thesis
  proof cases
    case 1
    then show ?thesis using b p by (simp add: atan2_def)
  next
    case 2
    then have "y / x \<le> 0" by (simp add: divide_nonneg_neg)
    then have "arctan (y / x) \<le> 0" by (simp add: arctan_le_zero_iff)
    then show ?thesis using 2 b p by (simp add: atan2_def)
  next
    case 3
    then have "0 < y / x" by (simp add: divide_neg_neg)
    then have "0 < arctan (y / x)" by (simp add: zero_less_arctan_iff)
    then show ?thesis using 3 b p by (simp add: atan2_def)
  next
    case 4
    then show ?thesis by (simp add: atan2_def) (use p in linarith)
  qed
qed

lemma alpna_pre_eq:
  assumes "rot ! 3 \<noteq> 0" "rot ! 7 \<noteq> 0"
  shows "alpna_pre rot = Some (if rot ! 1 > rot ! 5 then arctan (rot ! 2 / rot ! 3) - pi / 2
                               else arctan (rot ! 6 / rot ! 7) + pi / 2)"
  using assms by (simp add: alpna_pre_def fdiv_def lift2_def Let_def)

lemma alpna_pre_None: "rot ! 3 = 0 \<or> rot ! 7 = 0 \<Longrightarrow> alpna_pre rot = None"
  by (auto simp: alpna_pre_def fdiv_def lift2_def Let_def split: option.splits)

text \<open>
  With non-zero denominators \<^verbatim>\<open>rot[3]\<close> and \<^verbatim>\<open>rot[7]\<close> the block computes
  \<open>alpha + atan2(kp_x - cx, f)\<close>, with \<open>alpha = atan(rot[2] / rot[3]) - \<pi>/2\<close> when channel 1
  exceeds channel 5 and \<open>alpha = atan(rot[6] / rot[7]) + \<pi>/2\<close> otherwise, wrapped once by
  \<open>2\<pi>\<close>: the second masked assignment never undoes or repeats the first. The result
  lies in \<open>[-\<pi>, \<pi>]\<close>; both comparisons are strict, so the value \<open>-\<pi>\<close> is not wrapped.
\<close>

lemma rot_y_of_wrap:
  assumes "rot ! 3 \<noteq> 0" "rot ! 7 \<noteq> 0"
  shows "\<exists>y. rot_y_of rot kp_x cx f = Some y
    \<and> (let alpha = (if rot ! 1 > rot ! 5 then arctan (rot ! 2 / rot ! 3) - pi / 2
                      else arctan (rot ! 6 / rot ! 7) + pi / 2);
            r = alpha + atan2 (kp_x - cx) f
        in y = (if pi < r then r - 2 * pi else if r < - pi then r + 2 * pi else r))
    \<and> - pi \<le> y \<and> y \<le> pi"
proof -
  define alpha where "alpha = (if rot ! 1 > rot ! 5 then arctan (rot ! 2 / rot ! 3) - pi / 2
                      else arctan (rot ! 6 / rot ! 7) + pi / 2)"
  define r where "r = alpha + atan2 (kp_x - cx) f"
  define y where "y = (if pi < r then r - 2 * pi else if r < - pi then r + 2 * pi else r)"
  have a: "alpna_pre rot = Some alpha" unfolding alpha_def using assms by (rule alpna_pre_eq)
  have ab: "- pi < alpha" "alpha < pi"
    using arctan_bounded [of "rot ! 2 / rot ! 3"] arctan_bounded [of "rot ! 6 / rot ! 7"]
    by (simp_all add: alpha_def)
  have rb: "- (2 * pi) < r" "r < 2 * pi"
    using ab atan2_bounds [of "kp_x - cx" f] unfolding r_def by linarith+
  have p: "0 < pi" by simp
  have e: "rot_y_of rot kp_x cx f = Some y"
    using p by (simp add: rot_y_of_def a Let_def y_def r_def)
  have b: "- pi \<le> y \<and> y \<le> pi" unfolding y_def using rb p by auto
  show ?thesis
    using e b by (intro exI [of _ y]) (simp add: Let_def y_def r_def alpha_def)
qed

lemma rot_y_of_rot_one: "rot_y_of [0, 1, 1, 1, 0, 0, 0, 1] 1 0 1 = Some 0"
proof -
  have p: "0 < pi" by simp
  show ?thesis
    using p by (simp add: rot_y_of_def alpna_pre_def fdiv_def lift2_def atan2_def Let_def arctan_one)
qed

lemma rot_y_of_minus_pi: "rot_y_of [0, 1, - 1, 1, 0, 0, 0, 1] (- 1) 0 1 = Some (- pi)"
proof -
  have p: "0 < pi" by simp
  show ?thesis
    using p by (simp add: rot_y_of_def alpna_pre_def fdiv_def lift2_def atan2_def Let_def
        arctan_minus arctan_one)
qed

lemma rot_y_of_None: "rot ! 3 = 0 \<or> rot ! 7 = 0 \<Longrightarrow> rot_y_of rot kp_x cx f = None"
  by (simp add: rot_y_of_def alpna_pre_None)

section \<open>Thresholding and matching of keypoint candidates\<close>

lemma first_index_less: "\<exists>x \<in> set xs. P x \<Longrightarrow> first_index P xs < length xs"
  by (induction xs) auto

lemma first_index_holds: "\<exists>x \<in> set xs. P x \<Longrightarrow> P (xs ! first_index P xs)"
  by (induction xs) auto

lemma min_ind_of_props:
  assumes "ds \<noteq> []"
  shows "min_ind_of ds < length ds" "ds ! min_ind_of ds = min_list ds"
    "\<And>j. j < length ds \<Longrightarrow> ds ! min_ind_of ds \<le> ds ! j"
proof -
  have m: "min_list ds = Min (set ds)" using assms by (rule min_list_Min)
  have "Min (set ds) \<in> set ds" using assms by (intro Min_in) simp_all
  then have ex: "\<exists>x \<in> set ds. x = min_list ds" using m by simp
  show "min_ind_of ds < length ds"
    unfolding min_ind_of_def using ex by (rule first_index_less)
  show e: "ds ! min_ind_of ds = min_list ds"
    unfolding min_ind_of_def using ex by (rule first_index_holds)
  fix j assume "j < length ds"
  then have "Min (set ds) \<le> ds ! j" by (intro Min_le) simp_all
  then show "ds ! min_ind_of ds \<le> ds ! j" using e m by simp
qed

lemma masked_invalid:
  "s \<le> thresh \<Longrightarrow> masked_score s = - 1 \<and> masked_coord s v = - 10000"
  by (simp add: masked_score_def masked_coord_def score_mask_def)

lemma masked_valid:
  "thresh < s \<Longrightarrow> masked_score s = s \<and> masked_coord s v = v"
  by (simp add: masked_score_def masked_coord_def score_mask_def)

text \<open>
  Claim C8, as amended. In one channel of the keypoint heatmap, a candidate whose score
  is at most \<open>0.1\<close> gets the score \<open>-1\<close> and the coordinates \<open>(-10000, -10000)\<close>, and any
  other candidate keeps its score and coordinates. For a regression keypoint, the match
  is the first candidate at minimal distance. An invalidated candidate can be that match;
  then the matched score is \<open>-1\<close>, the matched coordinates are the sentinel, and the
  acceptance test of lines 399 to 402 rejects the match for every box.
\<close>

theorem invalidated_candidate_is_rejected:
  assumes "length xs = length ss" "length ys = length ss" "ss \<noteq> []"
  shows "(let hm_xs = map2 masked_coord ss xs; hm_ys = map2 masked_coord ss ys;
              hm_score = map masked_score ss;
              hm_kps = map2 (\<lambda>x y. [x, y]) hm_xs hm_ys;
              i = min_ind_of (dist_row kp hm_kps)
          in (\<forall>j < length ss. ss ! j \<le> thresh \<longrightarrow>
                hm_score ! j = - 1 \<and> hm_kps ! j = [- 10000, - 10000])
           \<and> (\<forall>j < length ss. thresh < ss ! j \<longrightarrow>
                hm_score ! j = ss ! j \<and> hm_kps ! j = [xs ! j, ys ! j])
           \<and> i < length ss
           \<and> (\<forall>j < length ss. dist_row kp hm_kps ! i \<le> dist_row kp hm_kps ! j)
           \<and> match_nearest kp hm_kps hm_score = (hm_score ! i, dist_row kp hm_kps ! i, hm_kps ! i)
           \<and> (ss ! i \<le> thresh \<longrightarrow>
                fst (match_nearest kp hm_kps hm_score) = - 1
              \<and> snd (snd (match_nearest kp hm_kps hm_score)) = [- 10000, - 10000]
              \<and> reject bbox (hm_kps ! i) (hm_score ! i) (dist_row kp hm_kps ! i) = 1))"
proof -
  define hm_xs where "hm_xs = map2 masked_coord ss xs"
  define hm_ys where "hm_ys = map2 masked_coord ss ys"
  define hm_score where "hm_score = map masked_score ss"
  define hm_kps where "hm_kps = map2 (\<lambda>x y. [x, y]) hm_xs hm_ys"
  define ds where "ds = dist_row kp hm_kps"
  define i where "i = min_ind_of ds"
  have len: "length hm_xs = length ss" "length hm_ys = length ss" "length hm_kps = length ss"
    "length ds = length ss"
    using assms(1,2) by (simp_all add: hm_xs_def hm_ys_def hm_kps_def ds_def dist_row_def)
  have nth: "\<And>j. j < length ss \<Longrightarrow> hm_score ! j = masked_score (ss ! j)
      \<and> hm_kps ! j = [masked_coord (ss ! j) (xs ! j), masked_coord (ss ! j) (ys ! j)]"
    using assms(1,2) by (simp add: hm_score_def hm_kps_def hm_xs_def hm_ys_def)
  have inv: "\<forall>j < length ss. ss ! j \<le> thresh \<longrightarrow>
      hm_score ! j = - 1 \<and> hm_kps ! j = [- 10000, - 10000]"
    using nth masked_invalid by simp
  have val: "\<forall>j < length ss. thresh < ss ! j \<longrightarrow>
      hm_score ! j = ss ! j \<and> hm_kps ! j = [xs ! j, ys ! j]"
    using nth masked_valid by simp
  have ne: "ds \<noteq> []" using len(4) assms(3) by auto
  have i: "i < length ss" unfolding i_def using min_ind_of_props(1) [OF ne] len(4) by simp
  have mn: "ds ! i = min_list ds" unfolding i_def by (rule min_ind_of_props(2) [OF ne])
  have le: "\<forall>j < length ss. ds ! i \<le> ds ! j"
    unfolding i_def using min_ind_of_props(3) [OF ne] len(4) by simp
  have m: "match_nearest kp hm_kps hm_score = (hm_score ! i, ds ! i, hm_kps ! i)"
    by (simp add: match_nearest_def Let_def ds_def [symmetric] i_def [symmetric] mn)
  have rj: "ss ! i \<le> thresh \<longrightarrow>
                fst (match_nearest kp hm_kps hm_score) = - 1
              \<and> snd (snd (match_nearest kp hm_kps hm_score)) = [- 10000, - 10000]
              \<and> reject bbox (hm_kps ! i) (hm_score ! i) (ds ! i) = 1"
  proof
    assume "ss ! i \<le> thresh"
    then have a: "hm_score ! i = - 1" "hm_kps ! i = [- 10000, - 10000]" using inv i by simp_all
    have "reject bbox (hm_kps ! i) (hm_score ! i) (ds ! i) = 1"
      unfolding a by (simp add: reject_def thresh_def Let_def)
    then show "fst (match_nearest kp hm_kps hm_score) = - 1
              \<and> snd (snd (match_nearest kp hm_kps hm_score)) = [- 10000, - 10000]
              \<and> reject bbox (hm_kps ! i) (hm_score ! i) (ds ! i) = 1"
      using m a by simp
  qed
  show ?thesis
    unfolding Let_def hm_xs_def [symmetric] hm_ys_def [symmetric] hm_score_def [symmetric]
      hm_kps_def [symmetric] ds_def [symmetric] i_def [symmetric]
    using inv val i le m rj by blast
qed

theorem invalidated_candidate_is_rejected_witness:
  "fst (match_nearest [- 10000, - 10000]
          (map2 (\<lambda>x y. [x, y]) (map2 masked_coord [1/20, 1] [3, 3])
                                  (map2 masked_coord [1/20, 1] [4, 4]))
          (map masked_score [1/20, 1])) = - 1
   \<and> snd (snd (match_nearest [- 10000, - 10000]
          (map2 (\<lambda>x y. [x, y]) (map2 masked_coord [1/20, 1] [3, 3])
                                  (map2 masked_coord [1/20, 1] [4, 4]))
          (map masked_score [1/20, 1]))) = [- 10000, - 10000]
   \<and> reject [0, 0, 5, 5]
        (map2 (\<lambda>x y. [x, y]) (map2 masked_coord [1/20, 1] [3, 3])
                                (map2 masked_coord [1/20, 1] [4, 4]) ! 0)
        (map masked_score [1/20, 1] ! 0)
        (dist_row [- 10000, - 10000]
          (map2 (\<lambda>x y. [x, y]) (map2 masked_coord [1/20, 1] [3, 3])
                                  (map2 masked_coord [1/20, 1] [4, 4])) ! 0) = 1"
proof -
  let ?ss = "[1/20, 1] :: real list" and ?xs = "[3, 3] :: real list" and ?ys = "[4, 4] :: real list"
  let ?kp = "[- 10000, - 10000] :: real list" and ?bbox = "[0, 0, 5, 5] :: real list"
  let ?hm_kps = "map2 (\<lambda>x y. [x, y]) (map2 masked_coord ?ss ?xs) (map2 masked_coord ?ss ?ys)"
  have h1: "length ?xs = length ?ss" by simp
  have h2: "length ?ys = length ?ss" by simp
  have h3: "?ss \<noteq> []" by simp
  have k: "?hm_kps = [[- 10000, - 10000], [3, 4]]"
    by (simp add: masked_coord_def score_mask_def thresh_def)
  have i0: "min_ind_of (dist_row ?kp ?hm_kps) = 0"
    unfolding k by (simp add: min_ind_of_def dist_row_def)
  have s0: "?ss ! 0 \<le> thresh" by (simp add: thresh_def)
  note t = invalidated_candidate_is_rejected [OF h1 h2 h3, where kp = ?kp and bbox = ?bbox]
  from t have "?ss ! 0 \<le> thresh \<longrightarrow>
      fst (match_nearest ?kp ?hm_kps (map masked_score ?ss)) = - 1
    \<and> snd (snd (match_nearest ?kp ?hm_kps (map masked_score ?ss))) = [- 10000, - 10000]
    \<and> reject ?bbox (?hm_kps ! 0) (map masked_score ?ss ! 0) (dist_row ?kp ?hm_kps ! 0) = 1"
    unfolding Let_def i0 by (elim conjE)
  with s0 show ?thesis by (rule rev_mp)
qed

text \<open>
  Claim C8 as stated fails: when the only candidate of a channel has score \<open>0.05\<close>, it is
  invalidated and still wins the distance comparison, whatever the distance.
\<close>

theorem invalidated_candidate_wins_comparison:
  "(1/20 :: real) \<le> thresh
   \<and> min_ind_of (dist_row [1/2, 1/2] [[masked_coord (1/20) (1/2), masked_coord (1/20) (1/2)]]) = 0
   \<and> fst (match_nearest [1/2, 1/2] [[masked_coord (1/20) (1/2), masked_coord (1/20) (1/2)]]
            [masked_score (1/20)]) = - 1
   \<and> snd (snd (match_nearest [1/2, 1/2]
            [[masked_coord (1/20) (1/2), masked_coord (1/20) (1/2)]] [masked_score (1/20)]))
       = [- 10000, - 10000]"
  by (simp add: thresh_def match_nearest_def min_ind_of_def dist_row_def masked_coord_def
      masked_score_def score_mask_def)


end
